theory Spec2Isabelle
  imports Complex_Main
begin

section \<open>JavaScript numbers\<close>

text \<open>
  The engine computes on JavaScript \<open>number\<close>s, the binary64 doubles of IEEE 754. A number
  is modelled as NaN, one of the two infinities, negative zero, or a finite real (\<open>Fin 0\<close> is
  positive zero); a double is such a number whose real is representable. The special values
  follow IEEE 754 as ECMAScript prescribes: NaN is contagious and compares false with
  everything, a division by zero gives an infinity or NaN, the sign of a zero is tracked.
  Every arithmetic operation returns the exact result rounded to the nearest double, ties to
  the even significand (\<open>round64\<close>): it overflows to an infinity and underflows through the
  subnormal numbers to a signed zero. A decimal literal of the source that is not an integer
  denotes the double nearest to it.
\<close>

datatype number = NaN | PInf | NInf | NZero | Fin real

fun is_nan :: "number \<Rightarrow> bool" where
  "is_nan NaN = True"
| "is_nan _ = False"

fun is_inf :: "number \<Rightarrow> bool" where
  "is_inf PInf = True"
| "is_inf NInf = True"
| "is_inf _ = False"

fun is_zero :: "number \<Rightarrow> bool" where
  "is_zero NZero = True"
| "is_zero (Fin r) = (r = 0)"
| "is_zero _ = False"

fun is_finite :: "number \<Rightarrow> bool" where
  "is_finite NZero = True"
| "is_finite (Fin r) = True"
| "is_finite _ = False"

fun signbit :: "number \<Rightarrow> bool" where
  "signbit NInf = True"
| "signbit NZero = True"
| "signbit (Fin r) = (r < 0)"
| "signbit _ = False"

text \<open>The real value of a finite number (both zeros have value 0).\<close>

fun val :: "number \<Rightarrow> real" where
  "val (Fin r) = r"
| "val _ = 0"

definition mk_inf :: "bool \<Rightarrow> number" where
  "mk_inf negative = (if negative then NInf else PInf)"

definition mk_zero :: "bool \<Rightarrow> number" where
  "mk_zero negative = (if negative then NZero else Fin 0)"

text \<open>
  Rounding to the nearest double. \<open>rne\<close> rounds a real to the nearest integer, a tie going
  to the even one. A real \<open>x\<close> with \<open>2 ^ e \<le> \<bar>x\<bar> < 2 ^ (e + 1)\<close> is rounded on the grid of
  step \<open>2 ^ (e - 52)\<close> (53 significant bits); below \<open>2 ^ - 1022\<close> the step stays
  \<open>2 ^ - 1074\<close> (subnormal numbers), and a result that reaches \<open>2 ^ 1024\<close> is an infinity.
\<close>

definition rne :: "real \<Rightarrow> int" where
  "rne x =
     (let f = \<lfloor>x\<rfloor>; d = x - of_int f
      in if d < 1 / 2 then f else if 1 / 2 < d then f + 1 else if even f then f else f + 1)"

definition exponent64 :: "real \<Rightarrow> int" where
  "exponent64 x = max \<lfloor>log 2 \<bar>x\<bar>\<rfloor> (- 1022)"

definition round64 :: "real \<Rightarrow> number" where
  "round64 x =
     (if x = 0 then Fin 0
      else let q = 2 powi (exponent64 x - 52); n = rne (\<bar>x\<bar> / q)
        in if n = 0 then mk_zero (x < 0)
           else if 2 ^ 1024 \<le> of_int n * q then mk_inf (x < 0)
           else if x < 0 then Fin (- (of_int n * q)) else Fin (of_int n * q))"

text \<open>The relational operators \<open><\<close>, \<open>>\<close>, \<open><=\<close>, \<open>>=\<close>: false as soon as an operand is NaN.\<close>

fun js_lt :: "number \<Rightarrow> number \<Rightarrow> bool" where
  "js_lt NaN _ = False"
| "js_lt _ NaN = False"
| "js_lt PInf _ = False"
| "js_lt _ PInf = True"
| "js_lt _ NInf = False"
| "js_lt NInf _ = True"
| "js_lt x y = (val x < val y)"

definition js_gt :: "number \<Rightarrow> number \<Rightarrow> bool" where
  "js_gt x y = js_lt y x"

definition js_le :: "number \<Rightarrow> number \<Rightarrow> bool" where
  "js_le x y = (\<not> is_nan x \<and> \<not> is_nan y \<and> \<not> js_lt y x)"

definition js_ge :: "number \<Rightarrow> number \<Rightarrow> bool" where
  "js_ge x y = js_le y x"

text \<open>The arithmetic operators \<open>+\<close>, \<open>-\<close>, \<open>*\<close>, \<open>/\<close>.\<close>

fun js_neg :: "number \<Rightarrow> number" where
  "js_neg NaN = NaN"
| "js_neg PInf = NInf"
| "js_neg NInf = PInf"
| "js_neg NZero = Fin 0"
| "js_neg (Fin r) = (if r = 0 then NZero else Fin (- r))"

definition js_add :: "number \<Rightarrow> number \<Rightarrow> number" where
  "js_add x y =
     (if is_nan x \<or> is_nan y then NaN
      else if is_inf x \<and> is_inf y then (if x = y then x else NaN)
      else if is_inf x then x
      else if is_inf y then y
      else if x = NZero \<and> y = NZero then NZero
      else round64 (val x + val y))"

definition js_sub :: "number \<Rightarrow> number \<Rightarrow> number" where
  "js_sub x y = js_add x (js_neg y)"

definition js_mul :: "number \<Rightarrow> number \<Rightarrow> number" where
  "js_mul x y =
     (if is_nan x \<or> is_nan y then NaN
      else if (is_inf x \<and> is_zero y) \<or> (is_zero x \<and> is_inf y) then NaN
      else if is_inf x \<or> is_inf y then mk_inf (signbit x \<noteq> signbit y)
      else if val x * val y = 0 then mk_zero (signbit x \<noteq> signbit y)
      else round64 (val x * val y))"

definition js_div :: "number \<Rightarrow> number \<Rightarrow> number" where
  "js_div x y =
     (if is_nan x \<or> is_nan y then NaN
      else if (is_inf x \<and> is_inf y) \<or> (is_zero x \<and> is_zero y) then NaN
      else if is_inf x \<or> is_zero y then mk_inf (signbit x \<noteq> signbit y)
      else if is_inf y \<or> is_zero x then mk_zero (signbit x \<noteq> signbit y)
      else round64 (val x / val y))"

text \<open>\<open>Math.max\<close> of two arguments (NaN if either is NaN, \<open>+0\<close> above \<open>-0\<close>) and \<open>Math.sqrt\<close>.\<close>

definition Math_max :: "number \<Rightarrow> number \<Rightarrow> number" where
  "Math_max x y =
     (if is_nan x \<or> is_nan y then NaN
      else if js_lt x y then y
      else if js_lt y x then x
      else if x = NZero then y
      else x)"

fun Math_sqrt :: "number \<Rightarrow> number" where
  "Math_sqrt NaN = NaN"
| "Math_sqrt PInf = PInf"
| "Math_sqrt NInf = NaN"
| "Math_sqrt NZero = NZero"
| "Math_sqrt (Fin r) = (if r < 0 then NaN else round64 (sqrt r))"

section \<open>Types of the engine\<close>

text \<open>
  Strings are byte lists; a character outside ASCII is written as its UTF-8 bytes. The engine
  only concatenates and compares strings, so the encoding does not matter.
\<close>

datatype bodenart = GW | GI | SE | SU | TL | TM

datatype scs_group = A | B | C | D

datatype nachweisStatus = BESTANDEN | NICHT_BESTANDEN | PRUEFUNG_ERFORDERLICH

record DIN1986Input =
  projectName :: string
  grundstuecksflaeche :: number
  versiegelteFlaeche :: number
  bodenart :: bodenart
  gelaendeneigung :: number
  manningN :: number
  fliesslaenge :: number
  latitude :: number
  longitude :: number

text \<open>
  The argument and the result of \<open>computeKinematicWaveSolution\<close>. The declaration of
  \<open>KinematicWaveResult\<close> is in the module \<open>ml/pinnModel\<close>; the fields below are the ones the
  repository reads. Two fields of the argument are suffixed, their names being taken.
\<close>

record KinematicWaveParams =
  length_kw :: number
  rainfall :: number
  slope :: number
  manningN_kw :: number
  width :: number

record KinematicWaveResult =
  peakDischarge :: number
  timeToPeak :: number
  equilibriumDepth :: number

record DIN1986Result =
  nachweisErforderlich :: bool
  begruendung :: string
  abflusswirksameFlaeche :: number
  versiegelungsgrad :: number
  bemessungsregenJahre :: nat
  regenspende :: number
  abflussbeiwert :: number
  spitzenabflussRational :: number
  spitzenabflussPINN :: number
  rueckhaltevolumen :: number
  wasserqualitaetsvolumen :: number
  kinematischeWelle :: KinematicWaveResult
  nachweisStatus :: nachweisStatus
  zeitstempel :: string
  empfehlungen :: "string list"

text \<open>
  What the engine takes from outside its own file. The modules \<open>utils/hydrology\<close>
  (\<open>RUNOFF_COEFFICIENTS\<close>, \<open>computePeakRunoff\<close>, \<open>computeWQv\<close>) and \<open>ml/pinnModel\<close>
  (\<open>computeKinematicWaveSolution\<close>) are imported by the engine; they are parameters here, and
  every theorem below holds for all of them. The same record carries the two services of the
  runtime the engine uses: the clock reading \<open>new Date().toISOString()\<close> and the conversion
  of a number to a string inside a template literal.
\<close>

record RunoffCoefficients =
  impervious :: number
  pervious :: number

record env =
  RUNOFF_COEFFICIENTS :: RunoffCoefficients
  computePeakRunoff :: "number \<Rightarrow> number \<Rightarrow> number \<Rightarrow> number"
  computeWQv :: "number \<Rightarrow> number \<Rightarrow> number \<Rightarrow> number"
  computeKinematicWaveSolution :: "KinematicWaveParams \<Rightarrow> KinematicWaveResult"
  Date_toISOString :: string
  Number_toString :: "number \<Rightarrow> string"

section \<open>Static tables\<close>

definition BERLIN_KOSTRA :: "(nat \<times> number) list" where
  "BERLIN_KOSTRA =
     [(2, Fin 95), (5, Fin 125), (10, Fin 145), (30, Fin 175), (50, Fin 195), (100, Fin 220)]"

fun SOIL_SCS_MAP :: "bodenart \<Rightarrow> scs_group" where
  "SOIL_SCS_MAP GW = A"
| "SOIL_SCS_MAP GI = A"
| "SOIL_SCS_MAP SE = A"
| "SOIL_SCS_MAP SU = B"
| "SOIL_SCS_MAP TL = C"
| "SOIL_SCS_MAP TM = D"

section \<open>The assessment engine\<close>

definition determineComplianceStatus ::
    "bool \<Rightarrow> number \<Rightarrow> number \<Rightarrow> number \<Rightarrow> nachweisStatus" where
  "determineComplianceStatus required qRational qPINN retentionM3 =
     (if \<not> required then BESTANDEN
      else let ratio = js_div qPINN qRational in
        if js_lt ratio (round64 0.3) \<or> js_gt ratio (Fin 3) then PRUEFUNG_ERFORDERLICH
        else if js_lt retentionM3 (Fin 50) then BESTANDEN
        else if js_lt retentionM3 (Fin 200) then PRUEFUNG_ERFORDERLICH
        else NICHT_BESTANDEN)"

definition rec_hoher_versiegelungsgrad :: string where
  "rec_hoher_versiegelungsgrad =
     ''Hoher Versiegelungsgrad (>80%). Entsiegelung oder Retentionsdach empfohlen.''"

definition rec_t100 :: string where
  "rec_t100 =
     ''T=100a Bemessungsregen angesetzt (Versiegelungsgrad '' @ [CHR 0xE2, CHR 0x89, CHR 0xA5]
     @ ''70%). Intensive Dachbegr'' @ [CHR 0xC3, CHR 0xBC]
     @ ''nung kann den Abflussbeiwert senken.''"

definition rec_grosse_grundstuecke :: string where
  "rec_grosse_grundstuecke =
     ''Bei Grundst'' @ [CHR 0xC3, CHR 0xBC] @ ''cken >2.000 m'' @ [CHR 0xC2, CHR 0xB2]
     @ '' ist eine detaillierte '' @ [CHR 0xC3, CHR 0x9C]
     @ ''berflutungssimulation (2D) empfohlen.''"

definition rec_divergenz :: string where
  "rec_divergenz =
     ''Analytische und PINN-Methode zeigen Divergenz. Manuelle Pr'' @ [CHR 0xC3, CHR 0xBC]
     @ ''fung durch Bauvorlageberechtigten erforderlich.''"

definition rec_rueckhaltevolumen :: string where
  "rec_rueckhaltevolumen =
     ''Erforderliches R'' @ [CHR 0xC3, CHR 0xBC] @ ''ckhaltevolumen '' @ [CHR 0xC3, CHR 0xBC]
     @ ''berschreitet zul'' @ [CHR 0xC3, CHR 0xA4] @ ''ssige Grenzen. Entw''
     @ [CHR 0xC3, CHR 0xA4] @ ''sserungskonzept '' @ [CHR 0xC3, CHR 0xBC] @ ''berarbeiten.''"

definition rec_rigolen :: string where
  "rec_rigolen =
     ''Pr'' @ [CHR 0xC3, CHR 0xBC]
     @ ''fung eines Rigolen- oder Muldenversickerungssystems gem'' @ [CHR 0xC3, CHR 0xA4]
     @ [CHR 0xC3, CHR 0x9F] @ '' DWA-A 138 empfohlen.''"

definition rec_hinweis :: string where
  "rec_hinweis =
     ''Hinweis: Dieser Entwurf ersetzt nicht die Pr'' @ [CHR 0xC3, CHR 0xBC]
     @ ''fung und Freigabe durch einen Bauvorlageberechtigten Ingenieur.''"

text \<open>
  Each \<open>recs.push(s)\<close> of the source appends \<open>s\<close> to the list built so far. A local
  variable that has the name of a result field carries a prime.
\<close>

definition generateRecommendations ::
    "DIN1986Input \<Rightarrow> number \<Rightarrow> nachweisStatus \<Rightarrow> string list" where
  "generateRecommendations input versiegelungsgrad' status =
     (let recs = [];
          recs = (if js_gt versiegelungsgrad' (round64 0.8)
                  then recs @ [rec_hoher_versiegelungsgrad] else recs);
          recs = (if js_ge versiegelungsgrad' (round64 0.7) then recs @ [rec_t100] else recs);
          recs = (if js_gt (grundstuecksflaeche input) (Fin 2000)
                  then recs @ [rec_grosse_grundstuecke] else recs);
          recs = (if status = PRUEFUNG_ERFORDERLICH then recs @ [rec_divergenz] else recs);
          recs = (if status = NICHT_BESTANDEN
                  then (recs @ [rec_rueckhaltevolumen]) @ [rec_rigolen] else recs);
          recs = recs @ [rec_hinweis]
      in recs)"

text \<open>The two template literals of the justification, around the interpolated area.\<close>

definition begruendung_prefix :: string where
  "begruendung_prefix = ''Abflusswirksame Fl'' @ [CHR 0xC3, CHR 0xA4] @ ''che (''"

definition begruendung_ueberschreitet :: string where
  "begruendung_ueberschreitet =
     '' m'' @ [CHR 0xC2, CHR 0xB2] @ '') '' @ [CHR 0xC3, CHR 0xBC]
     @ ''berschreitet 800 m'' @ [CHR 0xC2, CHR 0xB2]
     @ '' Schwellenwert nach DIN 1986-100 '' @ [CHR 0xC2, CHR 0xA7] @ ''14.9.2''"

definition begruendung_unter :: string where
  "begruendung_unter =
     '' m'' @ [CHR 0xC2, CHR 0xB2] @ '') unter 800 m'' @ [CHR 0xC2, CHR 0xB2] @ '' ''
     @ [CHR 0xE2, CHR 0x80, CHR 0x94] @ '' vereinfachtes Verfahren ausreichend''"

text \<open>
  \<open>BERLIN_KOSTRA[k]\<close> reads the table at key \<open>k\<close>. A missing key would read \<open>undefined\<close>,
  which arithmetic turns into NaN; the engine only reads the keys 30 and 100.
\<close>

definition kostra_at :: "nat \<Rightarrow> number" where
  "kostra_at k = (case map_of BERLIN_KOSTRA k of Some v \<Rightarrow> v | None \<Rightarrow> NaN)"

definition performDIN1986Assessment :: "env \<Rightarrow> DIN1986Input \<Rightarrow> DIN1986Result" where
  "performDIN1986Assessment e input =
     (let abflusswirksameFlaeche' = versiegelteFlaeche input;
          versiegelungsgrad' = js_div (versiegelteFlaeche input) (grundstuecksflaeche input);
          nachweisErforderlich' = js_gt abflusswirksameFlaeche' (Fin 800);
          begruendung' =
            (if nachweisErforderlich'
             then begruendung_prefix @ Number_toString e abflusswirksameFlaeche'
                    @ begruendung_ueberschreitet
             else begruendung_prefix @ Number_toString e abflusswirksameFlaeche'
                    @ begruendung_unter);
          bemessungsregenJahre' = (if js_ge versiegelungsgrad' (round64 0.7) then 100 else 30);
          regenspende' = kostra_at bemessungsregenJahre';
          perviousArea = js_sub (grundstuecksflaeche input) (versiegelteFlaeche input);
          abflussbeiwert' =
            js_div
              (js_add (js_mul (versiegelteFlaeche input) (impervious (RUNOFF_COEFFICIENTS e)))
                      (js_mul perviousArea (pervious (RUNOFF_COEFFICIENTS e))))
              (grundstuecksflaeche input);
          spitzenabflussRational' =
            computePeakRunoff e regenspende' (grundstuecksflaeche input) abflussbeiwert';
          slopeDecimal = js_div (gelaendeneigung input) (Fin 100);
          kinematischeWelle' = computeKinematicWaveSolution e
            \<lparr> length_kw = fliesslaenge input,
              rainfall = regenspende',
              slope = Math_max slopeDecimal (round64 0.001),
              manningN_kw = manningN input,
              width = Math_sqrt (grundstuecksflaeche input) \<rparr>;
          spitzenabflussPINN' = peakDischarge kinematischeWelle';
          wasserqualitaetsvolumen' =
            computeWQv e (Fin 25) (grundstuecksflaeche input) abflussbeiwert';
          rueckhaltevolumen' = js_div wasserqualitaetsvolumen' (Fin 1000);
          nachweisStatus' = determineComplianceStatus nachweisErforderlich'
            spitzenabflussRational' spitzenabflussPINN' rueckhaltevolumen';
          empfehlungen' = generateRecommendations input versiegelungsgrad' nachweisStatus'
      in \<lparr> nachweisErforderlich = nachweisErforderlich',
           begruendung = begruendung',
           abflusswirksameFlaeche = abflusswirksameFlaeche',
           versiegelungsgrad = versiegelungsgrad',
           bemessungsregenJahre = bemessungsregenJahre',
           regenspende = regenspende',
           abflussbeiwert = abflussbeiwert',
           spitzenabflussRational = spitzenabflussRational',
           spitzenabflussPINN = spitzenabflussPINN',
           rueckhaltevolumen = rueckhaltevolumen',
           wasserqualitaetsvolumen = wasserqualitaetsvolumen',
           kinematischeWelle = kinematischeWelle',
           nachweisStatus = nachweisStatus',
           zeitstempel = Date_toISOString e,
           empfehlungen = empfehlungen' \<rparr>)"

text \<open>The threshold indicator of the input form (\<open>CoPilotPage\<close>) repeats the 800 check.\<close>

definition CoPilotPage_nachweisErforderlich :: "DIN1986Input \<Rightarrow> bool" where
  "CoPilotPage_nachweisErforderlich input = js_gt (versiegelteFlaeche input) (Fin 800)"

section \<open>A concrete input and a concrete environment\<close>

text \<open>The initial content of the input form (\<open>DEFAULT_INPUT\<close> of \<open>CoPilotPage\<close>).\<close>

definition DEFAULT_INPUT :: DIN1986Input where
  "DEFAULT_INPUT =
     \<lparr> projectName = [],
       grundstuecksflaeche = Fin 2000,
       versiegelteFlaeche = Fin 1400,
       bodenart = SU,
       gelaendeneigung = Fin 2,
       manningN = round64 0.015,
       fliesslaenge = Fin 50,
       latitude = round64 52.52,
       longitude = round64 13.405 \<rparr>"

text \<open>
  One environment among the possible ones, used only to instantiate the theorems at concrete
  inputs; no theorem about the engine depends on it. The rational method is taken as
  \<open>C * I * A / 3600\<close>, the water-quality volume as depth times area times coefficient, the
  kinematic wave answers every call with the same triple, and numbers are printed in decimal
  when they are non-negative integers (any other finite number prints as a question mark).
\<close>

fun decimal :: "nat \<Rightarrow> string" where
  "decimal n =
     (if n < 10 then [char_of (48 + n)] else decimal (n div 10) @ [char_of (48 + n mod 10)])"

definition sample_toString :: "number \<Rightarrow> string" where
  "sample_toString x =
     (case x of
        NaN \<Rightarrow> ''NaN''
      | PInf \<Rightarrow> ''Infinity''
      | NInf \<Rightarrow> ''-Infinity''
      | NZero \<Rightarrow> ''0''
      | Fin r \<Rightarrow> if 0 \<le> r \<and> r = of_int \<lfloor>r\<rfloor> then decimal (nat \<lfloor>r\<rfloor>) else ''?'')"

definition sample_env :: env where
  "sample_env =
     \<lparr> RUNOFF_COEFFICIENTS = \<lparr> impervious = round64 0.9, pervious = round64 0.2 \<rparr>,
       computePeakRunoff =
         (\<lambda>intensity area c. js_div (js_mul (js_mul c intensity) area) (Fin 3600)),
       computeWQv = (\<lambda>depth area c. js_mul (js_mul depth area) c),
       computeKinematicWaveSolution =
         (\<lambda>p. \<lparr> peakDischarge = Fin 80, timeToPeak = Fin 5, equilibriumDepth = Fin 2 \<rparr>),
       Date_toISOString = ''2026-01-01T00:00:00.000Z'',
       Number_toString = sample_toString \<rparr>"

text \<open>
  Two more environments for concrete instances: \<open>discharges\<close> fixes the two peak discharges
  (and the water-quality volume at 10000 litres), and \<open>probe_env\<close> has a kinematic wave
  that returns the slope it receives as peak discharge, the flow length as time to peak, and
  the rainfall as equilibrium depth.
\<close>

definition discharges :: "number \<Rightarrow> number \<Rightarrow> env" where
  "discharges qRational qPINN =
     sample_env
       \<lparr> computePeakRunoff := (\<lambda>intensity area c. qRational),
         computeWQv := (\<lambda>depth area c. Fin 10000),
         computeKinematicWaveSolution :=
           (\<lambda>p. \<lparr> peakDischarge = qPINN, timeToPeak = Fin 5, equilibriumDepth = Fin 2 \<rparr>) \<rparr>"

definition probe_env :: env where
  "probe_env =
     sample_env
       \<lparr> computeKinematicWaveSolution :=
           (\<lambda>p. \<lparr> peakDischarge = slope p, timeToPeak = length_kw p,
                  equilibriumDepth = rainfall p \<rparr>) \<rparr>"

section \<open>Rounding error\<close>

text \<open>
  The unit roundoff of binary64 and the largest error of a result that underflows; a real
  \<open>x\<close> is rounded to a non-negative finite number \<open>r\<close> within these two errors when
  \<open>rounds_to x r\<close>.
\<close>

definition unit_roundoff :: real where
  "unit_roundoff = 1 / 2 ^ 53"

definition underflow_bound :: real where
  "underflow_bound = 1 / 2 ^ 1075"

definition rounds_to :: "real \<Rightarrow> number \<Rightarrow> bool" where
  "rounds_to x r \<longleftrightarrow>
     is_finite r \<and> 0 \<le> val r
     \<and> val r \<le> x * (1 + unit_roundoff) + underflow_bound
     \<and> x * (1 - unit_roundoff) - underflow_bound \<le> val r"

section \<open>Facts about rounding\<close>

declare decimal.simps [simp del]

lemma rne_error: "\<bar>of_int (rne x) - x\<bar> \<le> 1 / 2"
  unfolding rne_def Let_def by (auto; linarith)

lemma rne_nonneg: "0 \<le> x \<Longrightarrow> 0 \<le> rne x"
  unfolding rne_def Let_def by (auto; linarith?)

lemma round64_not_nan: "\<not> is_nan (round64 x)"
  by (simp add: round64_def Let_def mk_zero_def mk_inf_def)

lemma exponent64_eqI:
  assumes "2 powi e \<le> \<bar>x\<bar>" and "\<bar>x\<bar> < 2 powi (e + 1)" and "- 1022 \<le> e"
  shows "exponent64 x = e"
proof -
  have pos: "0 < \<bar>x\<bar>"
    using assms(1) by (smt (verit) zero_less_power_int zero_less_numeral)
  have "(2::real) powr real_of_int e = 2 powi e"
    and "(2::real) powr (real_of_int e + 1) = 2 powi (e + 1)"
    using powr_real_of_int' [of "2::real" e] powr_real_of_int' [of "2::real" "e + 1"]
    by simp_all
  then have "\<lfloor>log 2 \<bar>x\<bar>\<rfloor> = e"
    using assms(1,2) pos by (simp add: floor_log_eq_powr_iff)
  with assms(3) show ?thesis
    by (simp add: exponent64_def)
qed

lemma round64_normal:
  assumes "2 powi e \<le> \<bar>x\<bar>" and "\<bar>x\<bar> < 2 powi (e + 1)" and "- 1022 \<le> e"
    and "n = rne (\<bar>x\<bar> / 2 powi (e - 52))" and "n \<noteq> 0"
    and "of_int n * 2 powi (e - 52) < (2::real) ^ 1024"
  shows "round64 x =
    (if x < 0 then Fin (- (of_int n * 2 powi (e - 52))) else Fin (of_int n * 2 powi (e - 52)))"
proof -
  have "x \<noteq> 0"
    using assms(1) by (smt (verit) zero_less_power_int zero_less_numeral abs_zero)
  then show ?thesis
    using assms(4,5,6) by (simp add: round64_def exponent64_eqI [OF assms(1,2,3)] Let_def)
qed

lemma exponent64_subnormal:
  assumes "0 < \<bar>x\<bar>" and "\<bar>x\<bar> < 2 powi (- 1022)"
  shows "exponent64 x = - 1022"
proof -
  define l where "l = \<lfloor>log 2 \<bar>x\<bar>\<rfloor>"
  have "(2::real) powr real_of_int l = 2 powi l"
    using powr_real_of_int' [of "2::real" l] by simp
  then have "2 powi l \<le> \<bar>x\<bar>"
    using floor_log_eq_powr_iff [of "\<bar>x\<bar>" 2 l] assms(1) by (simp add: l_def)
  from this assms(2) have below: "(2::real) powi l < 2 powi (- 1022)"
    by (rule le_less_trans)
  have "l \<le> - 1022"
  proof (rule ccontr)
    assume "\<not> l \<le> - 1022"
    then have "- 1022 \<le> l"
      by simp
    then have "(2::real) powi (- 1022) \<le> 2 powi l"
      by (rule power_int_increasing) simp
    with below show False
      using leD by blast
  qed
  then show ?thesis
    by (simp add: exponent64_def l_def)
qed

lemma round64_subnormal:
  assumes "0 < \<bar>x\<bar>" and "\<bar>x\<bar> < 2 powi (- 1022)"
    and "n = rne (\<bar>x\<bar> / 2 powi (- 1074))" and "n \<noteq> 0"
    and "of_int n * 2 powi (- 1074) < (2::real) ^ 1024"
  shows "round64 x =
    (if x < 0 then Fin (- (of_int n * 2 powi (- 1074))) else Fin (of_int n * 2 powi (- 1074)))"
proof -
  have "x \<noteq> 0"
    using assms(1) by simp
  then show ?thesis
    using assms(3,4,5) by (simp add: round64_def exponent64_subnormal [OF assms(1,2)] Let_def)
qed

lemma round64_error:
  assumes small: "\<bar>x\<bar> < 2 ^ 1023"
  shows "is_finite (round64 x)
    \<and> \<bar>val (round64 x) - x\<bar> \<le> \<bar>x\<bar> / 2 ^ 53 + 1 / 2 ^ 1075
    \<and> (0 \<le> x \<longrightarrow> 0 \<le> val (round64 x) \<and> \<not> signbit (round64 x))
    \<and> (x \<le> 0 \<longrightarrow> val (round64 x) \<le> 0)"
proof (cases "x = 0")
  case True
  then show ?thesis
    by (simp add: round64_def)
next
  case False
  define l where "l = \<lfloor>log 2 \<bar>x\<bar>\<rfloor>"
  define q :: real where "q = 2 powi (exponent64 x - 52)"
  define n where "n = rne (\<bar>x\<bar> / q)"
  define m where "m = of_int n * q"
  have pos: "0 < \<bar>x\<bar>"
    using False by simp
  have "(2::real) powr real_of_int l = 2 powi l"
    and "(2::real) powr (real_of_int l + 1) = 2 powi (l + 1)"
    using powr_real_of_int' [of "2::real" l] powr_real_of_int' [of "2::real" "l + 1"]
    by simp_all
  then have l: "2 powi l \<le> \<bar>x\<bar>" "\<bar>x\<bar> < 2 powi (l + 1)"
    using floor_log_eq_powr_iff [of "\<bar>x\<bar>" 2 l] pos by (simp_all add: l_def)
  have "(2::real) powi l < 2 powi 1023"
    using l(1) small by simp
  then have l_upper: "l \<le> 1022"
    using power_int_le_imp_less_exp [of "2::real" l 1023] by simp
  have e: "exponent64 x = max l (- 1022)"
    by (simp add: exponent64_def l_def)
  have q_pos: "0 < q"
    by (simp add: q_def)
  have half_quantum: "q / 2 \<le> \<bar>x\<bar> / 2 ^ 53 + 1 / 2 ^ 1075"
  proof (cases "- 1022 \<le> l")
    case True
    then have "q = 2 powi l / 2 ^ 52"
      by (simp add: q_def e power_int_diff)
    then have "q / 2 \<le> \<bar>x\<bar> / 2 ^ 53"
      using l(1) by (simp add: field_simps)
    then show ?thesis
      by (smt (verit) divide_nonneg_pos zero_less_power zero_less_numeral zero_le_one)
  next
    case False
    then have "q = 1 / 2 ^ 1074"
      by (simp add: q_def e power_int_minus_divide max_def)
    then have "q / 2 = 1 / 2 ^ 1075"
      by simp
    then show ?thesis
      using pos by (smt (verit) divide_nonneg_pos zero_less_power zero_less_numeral)
  qed
  have "exponent64 x - 52 \<le> 970"
    using l_upper by (simp add: e)
  then have "q \<le> 2 powi 970"
    unfolding q_def by (rule power_int_increasing) simp
  then have q_upper: "q \<le> 2 ^ 970"
    by simp
  have "\<bar>of_int n - \<bar>x\<bar> / q\<bar> \<le> 1 / 2"
    unfolding n_def by (rule rne_error)
  then have "\<bar>of_int n - \<bar>x\<bar> / q\<bar> * q \<le> 1 / 2 * q"
    using q_pos by (simp only: mult_le_cancel_right_pos)
  moreover have "(of_int n - \<bar>x\<bar> / q) * q = m - \<bar>x\<bar>"
    using q_pos by (simp add: m_def left_diff_distrib)
  then have "\<bar>of_int n - \<bar>x\<bar> / q\<bar> * q = \<bar>m - \<bar>x\<bar>\<bar>"
    using q_pos abs_mult [of "of_int n - \<bar>x\<bar> / q" q] by simp
  ultimately have close: "\<bar>m - \<bar>x\<bar>\<bar> \<le> q / 2"
    by simp
  have n_nonneg: "0 \<le> n"
    unfolding n_def using q_pos by (intro rne_nonneg) simp
  then have m_nonneg: "0 \<le> m"
    using q_pos by (simp add: m_def)
  have "m \<le> \<bar>x\<bar> + q / 2"
    using close by linarith
  also have "\<dots> < 2 ^ 1023 + 2 ^ 970 / 2"
    using small q_upper by linarith
  also have "\<dots> \<le> (2::real) ^ 1024"
    by simp
  finally have no_overflow: "\<not> 2 ^ 1024 \<le> m"
    by simp
  have "round64 x =
      (if n = 0 then mk_zero (x < 0) else if 2 ^ 1024 \<le> m then mk_inf (x < 0)
       else if x < 0 then Fin (- m) else Fin m)"
    unfolding round64_def Let_def m_def n_def q_def by (simp only: False if_False)
  then have result: "round64 x =
      (if n = 0 then mk_zero (x < 0) else if x < 0 then Fin (- m) else Fin m)"
    by (simp only: no_overflow if_False)
  have m_zero: "m = 0" if "n = 0"
    using that by (simp add: m_def)
  have error: "\<bar>val (round64 x) - x\<bar> \<le> q / 2"
  proof (cases "n = 0")
    case True
    with close m_zero show ?thesis
      by (auto simp add: result mk_zero_def)
  next
    case False
    then have v: "val (round64 x) = (if x < 0 then - m else m)"
      by (simp add: result)
    show ?thesis
    proof (cases "x < 0")
      case True
      then have "val (round64 x) = - m"
        by (simp add: v)
      with close True show ?thesis
        by linarith
    next
      case False
      then have "val (round64 x) = m"
        by (simp add: v)
      with close False show ?thesis
        by linarith
    qed
  qed
  have finite: "is_finite (round64 x)"
    by (simp add: result mk_zero_def)
  have bound: "\<bar>val (round64 x) - x\<bar> \<le> \<bar>x\<bar> / 2 ^ 53 + 1 / 2 ^ 1075"
    using error half_quantum by (rule order_trans)
  have nonneg: "0 \<le> val (round64 x) \<and> \<not> signbit (round64 x)" if "0 \<le> x"
    using that False m_nonneg by (simp add: result mk_zero_def)
  have nonpos: "val (round64 x) \<le> 0" if "x \<le> 0"
    using that False m_nonneg by (simp add: result mk_zero_def)
  show ?thesis
    using finite bound nonneg nonpos by blast
qed

lemma round64_rounds_to:
  assumes "0 \<le> x" and "x < 2 ^ 1023"
  shows "rounds_to x (round64 x)"
proof -
  have "\<bar>x\<bar> < 2 ^ 1023"
    using assms by simp
  from round64_error [OF this] assms(1)
  have "is_finite (round64 x)" and "0 \<le> val (round64 x)"
    and "\<bar>val (round64 x) - x\<bar> \<le> x * unit_roundoff + underflow_bound"
    by (simp_all add: unit_roundoff_def underflow_bound_def)
  then show ?thesis
    unfolding rounds_to_def by (simp add: algebra_simps) linarith
qed

lemma rounds_to_zero: "is_finite r \<Longrightarrow> val r = 0 \<Longrightarrow> rounds_to 0 r"
  by (simp add: rounds_to_def underflow_bound_def)

lemma js_mul_rounds_to:
  assumes "is_finite x" and "is_finite y" and "0 \<le> val x" and "0 \<le> val y"
    and "val x * val y < 2 ^ 1023"
  shows "rounds_to (val x * val y) (js_mul x y)"
proof (cases "val x * val y = 0")
  case True
  with assms(1,2) have "is_finite (js_mul x y)" and "val (js_mul x y) = 0"
    by (cases x; cases y; simp add: js_mul_def mk_zero_def)+
  then have "rounds_to 0 (js_mul x y)"
    by (rule rounds_to_zero)
  with True show ?thesis
    by (simp only:)
next
  case False
  with assms(1,2) have "js_mul x y = round64 (val x * val y)"
    by (cases x; cases y) (simp_all add: js_mul_def)
  with assms(3,4,5) show ?thesis
    by (simp add: round64_rounds_to)
qed

lemma js_sub_rounds_to:
  assumes "is_finite x" and "is_finite y" and "val y \<le> val x" and "val x - val y < 2 ^ 1023"
  shows "rounds_to (val x - val y) (js_sub x y)"
proof (cases "x = NZero \<and> js_neg y = NZero")
  case True
  then have "js_sub x y = NZero" and "val x - val y = 0"
    by (cases y; simp add: js_sub_def js_add_def split: if_splits)+
  then show ?thesis
    by (simp add: rounds_to_zero)
next
  case False
  with assms(1,2) have "js_sub x y = round64 (val x - val y)"
    by (cases x; cases y) (auto simp add: js_sub_def js_add_def)
  with assms(3,4) show ?thesis
    by (simp add: round64_rounds_to)
qed

lemma js_add_rounds_to:
  assumes "is_finite x" and "is_finite y" and "0 \<le> val x" and "0 \<le> val y"
    and "val x + val y < 2 ^ 1023"
  shows "rounds_to (val x + val y) (js_add x y)"
proof (cases "x = NZero \<and> y = NZero")
  case True
  then show ?thesis
    by (simp add: js_add_def rounds_to_zero)
next
  case False
  with assms(1,2) have "js_add x y = round64 (val x + val y)"
    by (cases x; cases y) (auto simp add: js_add_def)
  with assms(3,4,5) show ?thesis
    by (simp add: round64_rounds_to)
qed

lemma js_div_rounds_to:
  assumes "is_finite x" and "is_finite y" and "0 \<le> val x" and "0 < val y"
    and "val x / val y < 2 ^ 1023"
  shows "rounds_to (val x / val y) (js_div x y)"
proof (cases "val x = 0")
  case True
  with assms(1,2,4) have "is_finite (js_div x y)" and "val (js_div x y) = 0"
    by (cases x; cases y; simp add: js_div_def mk_zero_def)+
  then have "rounds_to 0 (js_div x y)"
    by (rule rounds_to_zero)
  with True show ?thesis
    by simp
next
  case False
  with assms(1,2,4) have "js_div x y = round64 (val x / val y)"
    by (cases x; cases y) (simp_all add: js_div_def)
  with assms(3,4,5) show ?thesis
    by (simp add: round64_rounds_to)
qed

section \<open>Facts about comparisons and operators\<close>

lemma js_lt_Fin_iff: "js_lt x (Fin c) \<longleftrightarrow> x = NInf \<or> (is_finite x \<and> val x < c)"
  by (cases x) simp_all

lemma js_gt_Fin_iff: "js_gt x (Fin c) \<longleftrightarrow> x = PInf \<or> (is_finite x \<and> c < val x)"
  by (cases x) (simp_all add: js_gt_def)

lemma js_ge_Fin_iff: "js_ge x (Fin c) \<longleftrightarrow> x = PInf \<or> (is_finite x \<and> c \<le> val x)"
  by (cases x) (auto simp add: js_ge_def js_le_def)

lemma js_le_Fin_iff: "js_le x (Fin c) \<longleftrightarrow> x = NInf \<or> (is_finite x \<and> val x \<le> c)"
  by (cases x) (auto simp add: js_le_def)

lemma js_le_finite: "is_finite x \<Longrightarrow> is_finite y \<Longrightarrow> js_le x y \<longleftrightarrow> val x \<le> val y"
  by (cases x; cases y) (auto simp add: js_le_def)

lemma js_le_between:
  assumes "js_le (Fin lo) x" and "js_le x y" and "is_finite y"
  shows "is_finite x \<and> lo \<le> val x \<and> val x \<le> val y"
  using assms by (cases x; cases y) (auto simp add: js_le_def)

lemma js_lt_Fin: "js_lt (Fin a) (Fin b) \<longleftrightarrow> a < b"
  by simp

lemma js_gt_Fin: "js_gt (Fin a) (Fin b) \<longleftrightarrow> b < a"
  by (simp add: js_gt_def)

lemma js_ge_Fin: "js_ge (Fin a) (Fin b) \<longleftrightarrow> b \<le> a"
  by (auto simp add: js_ge_def js_le_def)

lemma js_ge_refl: "\<not> is_nan x \<Longrightarrow> js_ge x x"
  by (cases x) (simp_all add: js_ge_def js_le_def)

lemma js_div_Fin: "a \<noteq> 0 \<Longrightarrow> b \<noteq> 0 \<Longrightarrow> js_div (Fin a) (Fin b) = round64 (a / b)"
  by (simp add: js_div_def)

lemma js_mul_Fin: "a \<noteq> 0 \<Longrightarrow> b \<noteq> 0 \<Longrightarrow> js_mul (Fin a) (Fin b) = round64 (a * b)"
  by (simp add: js_mul_def)

lemma js_add_Fin: "js_add (Fin a) (Fin b) = round64 (a + b)"
  by (simp add: js_add_def)

lemma js_sub_Fin: "js_sub (Fin a) (Fin b) = round64 (a - b)"
  by (simp add: js_sub_def js_add_def)

lemmas js_Fin = js_div_Fin js_mul_Fin js_add_Fin js_sub_Fin js_lt_Fin js_gt_Fin js_ge_Fin

text \<open>\<open>Math.max\<close> returns one of its arguments, not below either, unless one is NaN.\<close>

lemma Math_max_nan: "is_nan x \<or> is_nan y \<Longrightarrow> Math_max x y = NaN"
  by (simp add: Math_max_def)

lemma Math_max_greatest:
  assumes "\<not> is_nan x" and "\<not> is_nan y"
  shows "(Math_max x y = x \<or> Math_max x y = y)
    \<and> js_ge (Math_max x y) x \<and> js_ge (Math_max x y) y"
  using assms by (cases x; cases y) (auto simp add: Math_max_def js_ge_def js_le_def)

lemma js_div_100_nan: "is_nan (js_div x (Fin 100)) \<longleftrightarrow> is_nan x"
  by (cases x) (simp_all add: js_div_def mk_inf_def mk_zero_def round64_not_nan)

section \<open>The propagation of rounding errors through a weighted average\<close>

lemma roundoff_facts:
  "0 \<le> unit_roundoff" "unit_roundoff \<le> 1" "0 \<le> underflow_bound" "underflow_bound \<le> 1"
  by (simp_all add: unit_roundoff_def underflow_bound_def)

lemma roundoff_power4:
  "(1 + unit_roundoff) * (1 + unit_roundoff) * (1 + unit_roundoff) * (1 + unit_roundoff)
     \<le> 1 + 5 * unit_roundoff"
  "1 - 4 * unit_roundoff
     \<le> (1 - unit_roundoff) * (1 - unit_roundoff) * (1 - unit_roundoff) * (1 - unit_roundoff)"
  by (simp_all add: unit_roundoff_def)

lemma rounds_to_le:
  assumes "rounds_to x r" and "0 \<le> x" and "x \<le> b" and "1 \<le> b"
  shows "val r \<le> 4 * b"
proof -
  have "x * (1 + unit_roundoff) \<le> b * 2"
    using assms(2,3,4) roundoff_facts by (intro mult_mono) simp_all
  then show ?thesis
    using assms(1,4) roundoff_facts(4) unfolding rounds_to_def by linarith
qed

lemma underflow_absorbed:
  assumes "1 / 2 ^ 500 \<le> t" and "1 / 2 ^ 500 \<le> c"
  shows "18 * (underflow_bound / t) + underflow_bound \<le> c * (3 * unit_roundoff)"
proof -
  have t: "0 < t"
    using assms(1) by (smt (verit) divide_pos_pos zero_less_power zero_less_numeral zero_less_one)
  have "underflow_bound / t \<le> underflow_bound / (1 / 2 ^ 500)"
    using assms(1) roundoff_facts(3) by (intro divide_left_mono) simp_all
  then have "18 * (underflow_bound / t) + underflow_bound \<le> 19 / 2 ^ 575"
    by (simp add: underflow_bound_def)
  also have "\<dots> \<le> 1 / 2 ^ 500 * (3 * unit_roundoff)"
    by (simp add: unit_roundoff_def)
  also have "\<dots> \<le> c * (3 * unit_roundoff)"
    using assms(2) roundoff_facts(1) by (intro mult_right_mono) simp_all
  finally show ?thesis .
qed

lemma weighted_upper:
  fixes a t ci cp A p B S R u h :: real
  assumes u: "0 \<le> u" "u \<le> 1" and h: "0 \<le> h" and t: "0 < t" and a: "0 \<le> a" "a \<le> t"
    and c: "0 \<le> cp" "cp \<le> ci" "ci \<le> 1"
    and A: "A \<le> a * ci * (1 + u) + h"
    and p: "0 \<le> p" "p \<le> (t - a) * (1 + u) + h"
    and B: "B \<le> p * cp * (1 + u) + h"
    and S: "S \<le> (A + B) * (1 + u) + h"
    and R: "R \<le> S / t * (1 + u) + h"
  shows "R \<le> ci * ((1 + u) * (1 + u) * (1 + u) * (1 + u)) + 18 * (h / t) + h"
proof -
  define K where "K = 1 + u"
  have K: "1 \<le> K" "K \<le> 2" "0 \<le> K"
    using u by (simp_all add: K_def)
  define X where "X = (t - a) * K + h"
  have "0 \<le> (t - a) * K"
    using a K by simp
  then have X: "0 \<le> X"
    using h by (simp add: X_def)
  have ci: "0 \<le> ci"
    using c by simp
  have "p * cp \<le> X * ci"
    using p(2) c(2) X c(1) unfolding X_def K_def by (rule mult_mono)
  then have "p * cp * K \<le> X * ci * K"
    using K(3) by (rule mult_right_mono)
  moreover have "h * ci \<le> h"
    using mult_left_mono [OF c(3) h] by simp
  then have "h * ci * K \<le> h * 2"
    using K(2) by (rule mult_mono) (use h K in simp_all)
  moreover have "X * ci * K = (t - a) * ci * (K * K) + h * ci * K"
    by (simp add: X_def algebra_simps)
  ultimately have B1: "B \<le> (t - a) * ci * (K * K) + 3 * h"
    using B unfolding K_def by linarith
  have "0 \<le> a * ci * K"
    using a(1) ci K(3) by simp
  then have "a * ci * K * 1 \<le> a * ci * K * K"
    using K(1) by (rule mult_left_mono [rotated])
  then have A1: "A \<le> a * ci * (K * K) + h"
    using A unfolding K_def by (simp add: mult.assoc)
  have "a * ci * (K * K) + (t - a) * ci * (K * K) = t * ci * (K * K)"
    by (simp add: algebra_simps)
  then have AB: "A + B \<le> t * ci * (K * K) + 4 * h"
    using A1 B1 by linarith
  then have "(A + B) * K \<le> (t * ci * (K * K) + 4 * h) * K"
    using K(3) by (rule mult_right_mono)
  moreover have "4 * h * K \<le> 4 * h * 2"
    using K(2) by (rule mult_left_mono) (use h in simp)
  moreover have "(t * ci * (K * K) + 4 * h) * K = t * ci * (K * K * K) + 4 * h * K"
    by (simp add: algebra_simps)
  ultimately have S1: "S \<le> t * ci * (K * K * K) + 9 * h"
    using S unfolding K_def by linarith
  then have "S / t \<le> (t * ci * (K * K * K) + 9 * h) / t"
    using t by (simp add: divide_right_mono)
  moreover have "(t * ci * (K * K * K) + 9 * h) / t = ci * (K * K * K) + 9 * (h / t)"
    using t by (simp add: field_simps)
  ultimately have Q: "S / t \<le> ci * (K * K * K) + 9 * (h / t)"
    by simp
  then have "S / t * K \<le> (ci * (K * K * K) + 9 * (h / t)) * K"
    using K(3) by (rule mult_right_mono)
  moreover have "0 \<le> h / t"
    using h t by simp
  then have "9 * (h / t) * K \<le> 9 * (h / t) * 2"
    using K(2) by (intro mult_left_mono) simp_all
  moreover have "(ci * (K * K * K) + 9 * (h / t)) * K
      = ci * (K * K * K * K) + 9 * (h / t) * K"
    by (simp add: algebra_simps)
  ultimately have "R \<le> ci * (K * K * K * K) + 18 * (h / t) + h"
    using R unfolding K_def by linarith
  then show ?thesis
    by (simp add: K_def)
qed

lemma weighted_lower:
  fixes a t ci cp A p B S R u h :: real
  assumes u: "0 \<le> u" "u \<le> 1" and h: "0 \<le> h" and t: "0 < t" and a: "0 \<le> a" "a \<le> t"
    and c: "0 \<le> cp" "cp \<le> ci" "ci \<le> 1"
    and A: "a * ci * (1 - u) - h \<le> A"
    and p: "(t - a) * (1 - u) - h \<le> p"
    and B: "p * cp * (1 - u) - h \<le> B"
    and S: "(A + B) * (1 - u) - h \<le> S"
    and R: "S / t * (1 - u) - h \<le> R"
  shows "cp * ((1 - u) * (1 - u) * (1 - u) * (1 - u)) - 4 * (h / t) - h \<le> R"
proof -
  define k where "k = 1 - u"
  have k: "0 \<le> k" "k \<le> 1"
    using u by (simp_all add: k_def)
  have "a * cp \<le> a * ci"
    using c(2) a(1) by (rule mult_left_mono)
  then have "a * cp * k \<le> a * ci * k"
    using k(1) by (rule mult_right_mono)
  moreover have "0 \<le> a * cp * k"
    using a(1) c(1) k(1) by simp
  then have "a * cp * k * k \<le> a * cp * k * 1"
    using k(2) by (rule mult_left_mono [rotated])
  ultimately have A1: "a * cp * (k * k) - h \<le> A"
    using A unfolding k_def by (simp add: mult.assoc)
  have "((t - a) * k - h) * cp \<le> p * cp"
    using p c(1) unfolding k_def by (rule mult_right_mono)
  then have "((t - a) * k - h) * cp * k \<le> p * cp * k"
    using k(1) by (rule mult_right_mono)
  moreover have "((t - a) * k - h) * cp * k = (t - a) * cp * (k * k) - h * cp * k"
    by (simp add: algebra_simps)
  moreover have "cp \<le> 1"
    using c by simp
  then have "h * cp \<le> h"
    using mult_left_mono [of cp 1 h] h by simp
  then have "h * cp * k \<le> h * 1"
    using k(2) by (rule mult_mono) (use h k in simp_all)
  ultimately have B1: "(t - a) * cp * (k * k) - 2 * h \<le> B"
    using B unfolding k_def by linarith
  have "a * cp * (k * k) + (t - a) * cp * (k * k) = t * cp * (k * k)"
    by (simp add: algebra_simps)
  then have AB: "t * cp * (k * k) - 3 * h \<le> A + B"
    using A1 B1 by linarith
  then have "(t * cp * (k * k) - 3 * h) * k \<le> (A + B) * k"
    using k(1) by (rule mult_right_mono)
  moreover have "3 * h * k \<le> 3 * h * 1"
    using k(2) by (rule mult_left_mono) (use h in simp)
  moreover have "(t * cp * (k * k) - 3 * h) * k = t * cp * (k * k * k) - 3 * h * k"
    by (simp add: algebra_simps)
  ultimately have S1: "t * cp * (k * k * k) - 4 * h \<le> S"
    using S unfolding k_def by linarith
  then have "(t * cp * (k * k * k) - 4 * h) / t \<le> S / t"
    using t by (simp add: divide_right_mono)
  moreover have "(t * cp * (k * k * k) - 4 * h) / t = cp * (k * k * k) - 4 * (h / t)"
    using t by (simp add: field_simps)
  ultimately have Q: "cp * (k * k * k) - 4 * (h / t) \<le> S / t"
    by simp
  then have "(cp * (k * k * k) - 4 * (h / t)) * k \<le> S / t * k"
    using k(1) by (rule mult_right_mono)
  moreover have "0 \<le> h / t"
    using h t by simp
  then have "4 * (h / t) * k \<le> 4 * (h / t) * 1"
    using k(2) by (intro mult_left_mono) simp_all
  moreover have "(cp * (k * k * k) - 4 * (h / t)) * k
      = cp * (k * k * k * k) - 4 * (h / t) * k"
    by (simp add: algebra_simps)
  ultimately have "cp * (k * k * k * k) - 4 * (h / t) - h \<le> R"
    using R unfolding k_def by linarith
  then show ?thesis
    by (simp add: k_def)
qed

lemma weighted_average_rounded:
  assumes area: "is_finite area" "1 / 2 ^ 500 \<le> val area" "val area \<le> 2 ^ 500"
    and sealed: "is_finite sealed" "0 \<le> val sealed" "val sealed \<le> val area"
    and c_imp: "is_finite c_imp" "1 / 2 ^ 500 \<le> val c_imp" "val c_imp \<le> 1"
    and c_per: "is_finite c_per" "0 \<le> val c_per" "val c_per \<le> val c_imp"
  defines "w \<equiv> js_div (js_add (js_mul sealed c_imp) (js_mul (js_sub area sealed) c_per)) area"
  shows "is_finite w \<and> 0 \<le> val w
    \<and> val w \<le> val c_imp * (1 + 8 * unit_roundoff)
    \<and> val c_per * (1 - unit_roundoff) * (1 - unit_roundoff) * (1 - unit_roundoff)
          * (1 - unit_roundoff)
        - 4 * (underflow_bound / val area) - underflow_bound \<le> val w"
proof -
  define t where "t = val area"
  define a where "a = val sealed"
  define ci where "ci = val c_imp"
  define cp where "cp = val c_per"
  define A where "A = js_mul sealed c_imp"
  define p where "p = js_sub area sealed"
  define B where "B = js_mul p c_per"
  define S where "S = js_add A B"
  note defs = t_def a_def ci_def cp_def
  have t: "0 < t" "1 / 2 ^ 500 \<le> t" "t \<le> 2 ^ 500"
    using area(2,3) by (simp_all add: t_def)
  have a: "0 \<le> a" "a \<le> t"
    using sealed by (simp_all add: defs)
  have c: "0 \<le> cp" "cp \<le> ci" "ci \<le> 1" "1 / 2 ^ 500 \<le> ci" "0 \<le> ci"
    using c_imp c_per by (simp_all add: defs)
  have big: "(1::real) \<le> 2 ^ 500" "(2::real) ^ 500 < 2 ^ 1023" "4 * (2::real) ^ 500 < 2 ^ 1023"
    "4 * (4 * (4 * (2::real) ^ 500)) < 2 ^ 1023"
    "4 * (4 * (4 * (4 * (2::real) ^ 500))) * 2 ^ 500 < 2 ^ 1023"
    by simp_all
  have "a * ci \<le> t * 1"
    using a c by (intro mult_mono) simp_all
  then have aci: "0 \<le> a * ci" "a * ci \<le> 2 ^ 500"
    using a c t by simp_all
  have A: "rounds_to (a * ci) A"
    unfolding A_def defs
  proof (rule js_mul_rounds_to)
    show "val sealed * val c_imp < 2 ^ 1023"
      using aci(2) big(2) unfolding defs by (rule le_less_trans)
  qed (use sealed c_imp c in \<open>simp_all add: defs\<close>)
  have A_le: "val A \<le> 4 * 2 ^ 500"
    using A aci big(1) by (rule rounds_to_le)
  have ta: "0 \<le> t - a" "t - a \<le> 2 ^ 500"
    using a t by simp_all
  have p: "rounds_to (t - a) p"
    unfolding p_def defs
  proof (rule js_sub_rounds_to)
    show "val area - val sealed < 2 ^ 1023"
      using ta(2) big(2) unfolding defs by (rule le_less_trans)
  qed (use area sealed in simp_all)
  have p_le: "val p \<le> 4 * 2 ^ 500"
    using p ta big(1) by (rule rounds_to_le)
  have p_fin: "is_finite p" "0 \<le> val p"
    using p by (simp_all add: rounds_to_def)
  have "val p * cp \<le> 4 * 2 ^ 500 * 1"
    using p_le c p_fin by (intro mult_mono) simp_all
  then have pcp: "0 \<le> val p * cp" "val p * cp \<le> 4 * 2 ^ 500"
    using p_fin c by simp_all
  have B: "rounds_to (val p * cp) B"
    unfolding B_def cp_def
  proof (rule js_mul_rounds_to)
    show "val p * val c_per < 2 ^ 1023"
      using pcp(2) big(3) unfolding defs by (rule le_less_trans)
  qed (use p_fin c_per in simp_all)
  have B_le: "val B \<le> 4 * (4 * 2 ^ 500)"
    using B pcp by (rule rounds_to_le) simp
  have AB_fin: "is_finite A" "0 \<le> val A" "is_finite B" "0 \<le> val B"
    using A B by (simp_all add: rounds_to_def)
  have AB: "0 \<le> val A + val B" "val A + val B \<le> 4 * (4 * (4 * 2 ^ 500))"
    using AB_fin A_le B_le by simp_all
  have S: "rounds_to (val A + val B) S"
    unfolding S_def
  proof (rule js_add_rounds_to)
    show "val A + val B < 2 ^ 1023"
      using AB(2) big(4) by (rule le_less_trans)
  qed (use AB_fin in simp_all)
  have S_le: "val S \<le> 4 * (4 * (4 * (4 * 2 ^ 500)))"
    using S AB by (rule rounds_to_le) simp
  have S_fin: "is_finite S" "0 \<le> val S"
    using S by (simp_all add: rounds_to_def)
  have "val S / t \<le> val S / (1 / 2 ^ 500)"
    using t S_fin by (intro divide_left_mono) simp_all
  also have "\<dots> = val S * 2 ^ 500"
    by simp
  also have "\<dots> \<le> 4 * (4 * (4 * (4 * 2 ^ 500))) * 2 ^ 500"
    using S_le by (intro mult_right_mono) simp_all
  also note big(5)
  finally have quotient: "val S / t < 2 ^ 1023" .
  have w: "w = js_div S area"
    by (simp add: w_def S_def A_def B_def p_def)
  have W: "rounds_to (val S / t) w"
    unfolding w t_def
  proof (rule js_div_rounds_to)
    show "val S / val area < 2 ^ 1023"
      using quotient by (simp add: t_def)
  qed (use S_fin area t in \<open>simp_all add: t_def\<close>)
  note r = rounds_to_def
  have upper: "val w \<le> ci * ((1 + unit_roundoff) * (1 + unit_roundoff) * (1 + unit_roundoff)
        * (1 + unit_roundoff)) + 18 * (underflow_bound / t) + underflow_bound"
    using roundoff_facts(1,2,3) t(1) a c(1,2,3)
  proof (rule weighted_upper)
    show "val A \<le> a * ci * (1 + unit_roundoff) + underflow_bound"
      using A by (simp add: r)
    show "0 \<le> val p" "val p \<le> (t - a) * (1 + unit_roundoff) + underflow_bound"
      using p by (simp_all add: r)
    show "val B \<le> val p * cp * (1 + unit_roundoff) + underflow_bound"
      using B by (simp add: r)
    show "val S \<le> (val A + val B) * (1 + unit_roundoff) + underflow_bound"
      using S by (simp add: r)
    show "val w \<le> val S / t * (1 + unit_roundoff) + underflow_bound"
      using W by (simp add: r)
  qed
  have lower: "cp * ((1 - unit_roundoff) * (1 - unit_roundoff) * (1 - unit_roundoff)
        * (1 - unit_roundoff)) - 4 * (underflow_bound / t) - underflow_bound \<le> val w"
    using roundoff_facts(1,2,3) t(1) a c(1,2,3)
  proof (rule weighted_lower)
    show "a * ci * (1 - unit_roundoff) - underflow_bound \<le> val A"
      using A by (simp add: r)
    show "(t - a) * (1 - unit_roundoff) - underflow_bound \<le> val p"
      using p by (simp add: r)
    show "val p * cp * (1 - unit_roundoff) - underflow_bound \<le> val B"
      using B by (simp add: r)
    show "(val A + val B) * (1 - unit_roundoff) - underflow_bound \<le> val S"
      using S by (simp add: r)
    show "val S / t * (1 - unit_roundoff) - underflow_bound \<le> val w"
      using W by (simp add: r)
  qed
  have "ci * ((1 + unit_roundoff) * (1 + unit_roundoff) * (1 + unit_roundoff)
        * (1 + unit_roundoff)) \<le> ci * (1 + 5 * unit_roundoff)"
    using roundoff_power4(1) c(5) by (rule mult_left_mono)
  moreover have "18 * (underflow_bound / t) + underflow_bound \<le> ci * (3 * unit_roundoff)"
    using t(2) c(4) by (rule underflow_absorbed)
  ultimately have "val w \<le> ci * (1 + 5 * unit_roundoff) + ci * (3 * unit_roundoff)"
    using upper by linarith
  then have final_upper: "val w \<le> ci * (1 + 8 * unit_roundoff)"
    by (simp add: algebra_simps)
  show ?thesis
    using W final_upper lower by (simp add: r defs mult.assoc)
qed

section \<open>The doubles of some decimal literals\<close>

text \<open>Each value is the exact rational of the double nearest to the literal.\<close>

lemma round64_0_7: "round64 0.7 = Fin (3152519739159347 / 2 ^ 52)"
  by (subst round64_normal [where e = "-1" and n = 6305039478318694], simp_all add: rne_def Let_def)

lemma round64_0_8: "round64 0.8 = Fin (3602879701896397 / 2 ^ 52)"
  by (subst round64_normal [where e = "-1" and n = 7205759403792794], simp_all add: rne_def Let_def)

lemma round64_0_3: "round64 0.3 = Fin (5404319552844595 / 2 ^ 54)"
  by (subst round64_normal [where e = "-2" and n = 5404319552844595], simp_all add: rne_def Let_def)

lemma round64_0_001: "round64 0.001 = Fin (1152921504606847 / 2 ^ 60)"
  by (subst round64_normal [where e = "-10" and n = 4611686018427388], simp_all add: rne_def Let_def)

lemma round64_0_9: "round64 0.9 = Fin (8106479329266893 / 2 ^ 53)"
  by (subst round64_normal [where e = "-1" and n = 8106479329266893], simp_all add: rne_def Let_def)

lemma round64_0_2: "round64 0.2 = Fin (3602879701896397 / 2 ^ 54)"
  by (subst round64_normal [where e = "-3" and n = 7205759403792794], simp_all add: rne_def Let_def)

lemma round64_0_81: "round64 0.81 = Fin (1823957849085051 / 2 ^ 51)"
  by (subst round64_normal [where e = "-1" and n = 7295831396340204], simp_all add: rne_def Let_def)

lemma round64_0_02: "round64 0.02 = Fin (5764607523034235 / 2 ^ 58)"
  by (subst round64_normal [where e = "-6" and n = 5764607523034235], simp_all add: rne_def Let_def)

lemma round64_sealed_a: "round64 6.999999999999999 = Fin (7881299347898367 / 2 ^ 50)"
  by (subst round64_normal [where e = "2" and n = 7881299347898367], simp_all add: rne_def Let_def)

lemma round64_sealed_b: "round64 1434.86 = Fin (6310581016922685 / 2 ^ 42)"
  by (subst round64_normal [where e = "10" and n = 6310581016922685], simp_all add: rne_def Let_def)

lemma round64_area_b: "round64 2049.8 = Fin (2253778934615245 / 2 ^ 40)"
  by (subst round64_normal [where e = "11" and n = 4507557869230490], simp_all add: rne_def Let_def)

lemma round64_q_a: "round64 29.999999999999996 = Fin (8444249301319679 / 2 ^ 48)"
  by (subst round64_normal [where e = "4" and n = 8444249301319679], simp_all add: rne_def Let_def)

lemma round64_q_b: "round64 21.72 = Fin (764204561769431 / 2 ^ 45)"
  by (subst round64_normal [where e = "4" and n = 6113636494155448], simp_all add: rne_def Let_def)

lemma round64_q_c: "round64 72.4 = Fin (2547348539231437 / 2 ^ 45)"
  by (subst round64_normal [where e = "6" and n = 5094697078462874], simp_all add: rne_def Let_def)

lemma round64_sealed_c: "round64 60.00000000000001 = Fin (8444249301319681 / 2 ^ 47)"
  by (subst round64_normal [where e = "5" and n = 8444249301319681], simp_all add: rne_def Let_def)

lemma round64_sealed_d: "round64 1024.64 = Fin (4506414377137603 / 2 ^ 42)"
  by (subst round64_normal [where e = "10" and n = 4506414377137603], simp_all add: rne_def Let_def)

lemma round64_area_d: "round64 1280.8 = Fin (5633017971422003 / 2 ^ 42)"
  by (subst round64_normal [where e = "10" and n = 5633017971422003], simp_all add: rne_def Let_def)

text \<open>Some quotients and products of doubles, rounded.\<close>

lemma quotient_a: "js_div (round64 6.999999999999999) (Fin 10) = Fin (3152519739159347 / 2 ^ 52)"
  using round64_sealed_a
  by (simp add: js_Fin) (subst round64_normal [where e = "-1" and n = 6305039478318694], simp_all add: rne_def Let_def)

lemma quotient_b: "js_div (round64 1434.86) (round64 2049.8) = Fin (6305039478318693 / 2 ^ 53)"
  using round64_sealed_b round64_area_b
  by (simp add: js_Fin) (subst round64_normal [where e = "-1" and n = 6305039478318693], simp_all add: rne_def Let_def)

lemma ratio_a: "js_div (round64 29.999999999999996) (Fin 100) = Fin (5404319552844595 / 2 ^ 54)"
  using round64_q_a
  by (simp add: js_Fin) (subst round64_normal [where e = "-2" and n = 5404319552844595], simp_all add: rne_def Let_def)

lemma ratio_b: "js_div (round64 21.72) (round64 72.4) = Fin (2702159776422297 / 2 ^ 53)"
  using round64_q_b round64_q_c
  by (simp add: js_Fin) (subst round64_normal [where e = "-2" and n = 5404319552844594], simp_all add: rne_def Let_def)

lemma quotient_c: "js_div (round64 60.00000000000001) (Fin 75) = Fin (3602879701896397 / 2 ^ 52)"
  using round64_sealed_c
  by (simp add: js_Fin) (subst round64_normal [where e = "-1" and n = 7205759403792794], simp_all add: rne_def Let_def)

lemma quotient_d: "js_div (round64 1024.64) (round64 1280.8) = Fin (7205759403792795 / 2 ^ 53)"
  using round64_sealed_d round64_area_d
  by (simp add: js_Fin) (subst round64_normal [where e = "-1" and n = 7205759403792795], simp_all add: rne_def Let_def)

lemma slope_a: "js_div (round64 0.7) (Fin 100) = Fin (1008806316530991 / 2 ^ 57)"
  using round64_0_7
  by (simp add: js_Fin) (subst round64_normal [where e = "-8" and n = 8070450532247928], simp_all add: rne_def Let_def)

lemma retention_a: "js_div (Fin 10000) (Fin 1000) = Fin 10"
  by (simp add: js_Fin) (subst round64_normal [where e = "3" and n = 5629499534213120], simp_all add: rne_def Let_def)

lemma product_13: "js_mul (Fin 13) (round64 0.9) = Fin (6586514455029351 / 2 ^ 49)"
  using round64_0_9
  by (simp add: js_Fin) (subst round64_normal [where e = "3" and n = 6586514455029351], simp_all add: rne_def Let_def)

text \<open>The smallest positive double, \<open>2 ^ - 1074\<close>: its product with 0.9 rounds back to it.\<close>

lemma product_tiny: "js_mul (Fin (1 / 2 ^ 1074)) (round64 0.9) = Fin (1 / 2 ^ 1074)"
  using round64_0_9
  by (simp add: js_Fin) (subst round64_subnormal [where n = 1], simp_all add: rne_def Let_def)

lemma sum_tiny: "js_add (Fin (1 / 2 ^ 1074)) (Fin 0) = Fin (1 / 2 ^ 1074)"
  by (simp add: js_Fin) (subst round64_subnormal [where n = 1], simp_all add: rne_def Let_def)

lemma quotient_tiny: "js_div (Fin (1 / 2 ^ 1074)) (Fin (1 / 2 ^ 1074)) = Fin 1"
  by (simp add: js_Fin)
    (subst round64_normal [where e = 0 and n = 4503599627370496], simp_all add: rne_def Let_def)

section \<open>The fields of an assessment\<close>

lemma assess_nachweisErforderlich:
  "nachweisErforderlich (performDIN1986Assessment e input) =
     js_gt (versiegelteFlaeche input) (Fin 800)"
  by (simp add: performDIN1986Assessment_def Let_def)

lemma assess_abflusswirksameFlaeche:
  "abflusswirksameFlaeche (performDIN1986Assessment e input) = versiegelteFlaeche input"
  by (simp add: performDIN1986Assessment_def Let_def)

lemma assess_versiegelungsgrad:
  "versiegelungsgrad (performDIN1986Assessment e input) =
     js_div (versiegelteFlaeche input) (grundstuecksflaeche input)"
  by (simp add: performDIN1986Assessment_def Let_def)

lemma assess_bemessungsregenJahre:
  "bemessungsregenJahre (performDIN1986Assessment e input) =
     (if js_ge (js_div (versiegelteFlaeche input) (grundstuecksflaeche input)) (round64 0.7)
      then 100 else 30)"
  by (simp add: performDIN1986Assessment_def Let_def)

lemma assess_regenspende:
  "regenspende (performDIN1986Assessment e input) =
     kostra_at (bemessungsregenJahre (performDIN1986Assessment e input))"
  by (simp add: performDIN1986Assessment_def Let_def)

lemma assess_abflussbeiwert:
  "abflussbeiwert (performDIN1986Assessment e input) =
     js_div
       (js_add (js_mul (versiegelteFlaeche input) (impervious (RUNOFF_COEFFICIENTS e)))
          (js_mul (js_sub (grundstuecksflaeche input) (versiegelteFlaeche input))
             (pervious (RUNOFF_COEFFICIENTS e))))
       (grundstuecksflaeche input)"
  by (simp add: performDIN1986Assessment_def Let_def)

lemma assess_spitzenabflussRational:
  "spitzenabflussRational (performDIN1986Assessment e input) =
     computePeakRunoff e (regenspende (performDIN1986Assessment e input))
       (grundstuecksflaeche input) (abflussbeiwert (performDIN1986Assessment e input))"
  by (simp add: performDIN1986Assessment_def Let_def)

lemma assess_kinematischeWelle:
  "kinematischeWelle (performDIN1986Assessment e input) =
     computeKinematicWaveSolution e
       \<lparr> length_kw = fliesslaenge input,
         rainfall = regenspende (performDIN1986Assessment e input),
         slope = Math_max (js_div (gelaendeneigung input) (Fin 100)) (round64 0.001),
         manningN_kw = manningN input,
         width = Math_sqrt (grundstuecksflaeche input) \<rparr>"
  by (simp add: performDIN1986Assessment_def Let_def)

lemma assess_spitzenabflussPINN:
  "spitzenabflussPINN (performDIN1986Assessment e input) =
     peakDischarge (kinematischeWelle (performDIN1986Assessment e input))"
  by (simp add: performDIN1986Assessment_def Let_def)

lemma assess_wasserqualitaetsvolumen:
  "wasserqualitaetsvolumen (performDIN1986Assessment e input) =
     computeWQv e (Fin 25) (grundstuecksflaeche input)
       (abflussbeiwert (performDIN1986Assessment e input))"
  by (simp add: performDIN1986Assessment_def Let_def)

lemma assess_rueckhaltevolumen:
  "rueckhaltevolumen (performDIN1986Assessment e input) =
     js_div (wasserqualitaetsvolumen (performDIN1986Assessment e input)) (Fin 1000)"
  by (simp add: performDIN1986Assessment_def Let_def)

lemma assess_nachweisStatus:
  "nachweisStatus (performDIN1986Assessment e input) =
     determineComplianceStatus (nachweisErforderlich (performDIN1986Assessment e input))
       (spitzenabflussRational (performDIN1986Assessment e input))
       (spitzenabflussPINN (performDIN1986Assessment e input))
       (rueckhaltevolumen (performDIN1986Assessment e input))"
  by (simp add: performDIN1986Assessment_def Let_def)

lemma assess_empfehlungen:
  "empfehlungen (performDIN1986Assessment e input) =
     generateRecommendations input (versiegelungsgrad (performDIN1986Assessment e input))
       (nachweisStatus (performDIN1986Assessment e input))"
  by (simp add: performDIN1986Assessment_def Let_def)

lemma assess_begruendung:
  "begruendung (performDIN1986Assessment e input) =
     (if js_gt (versiegelteFlaeche input) (Fin 800)
      then begruendung_prefix @ Number_toString e (versiegelteFlaeche input)
             @ begruendung_ueberschreitet
      else begruendung_prefix @ Number_toString e (versiegelteFlaeche input)
             @ begruendung_unter)"
  by (simp add: performDIN1986Assessment_def Let_def)

lemma assess_zeitstempel:
  "zeitstempel (performDIN1986Assessment e input) = Date_toISOString e"
  by (simp add: performDIN1986Assessment_def Let_def)

lemma kostra_at_100: "kostra_at 100 = Fin 220"
  by (simp add: kostra_at_def BERLIN_KOSTRA_def)

lemma kostra_at_30: "kostra_at 30 = Fin 175"
  by (simp add: kostra_at_def BERLIN_KOSTRA_def)

lemma kostra_lookup:
  "map_of BERLIN_KOSTRA 100 = Some (Fin 220)" "map_of BERLIN_KOSTRA 30 = Some (Fin 175)"
  by (simp_all add: BERLIN_KOSTRA_def)

section \<open>The verification requirement (800 square metres)\<close>

text \<open>
  Claim C1. The requirement flag \<open>nachweisErforderlich\<close> is true if and only if the impervious
  area is strictly greater than 800: the flag is the comparison \<open>versiegelteFlaeche > 800\<close>
  itself, which for a finite area \<open>a\<close> is \<open>800 < a\<close>, for \<open>Infinity\<close> is true and for
  \<open>NaN\<close> and \<open>-Infinity\<close> is false. An area of exactly 800 gives false, every finite area
  above 800 (800.01 for one) gives true. The threshold indicator of the input form computes
  the same comparison.
\<close>

theorem C1_requirement_flag:
  "nachweisErforderlich (performDIN1986Assessment e input)
     = js_gt (versiegelteFlaeche input) (Fin 800)
   \<and> (nachweisErforderlich (performDIN1986Assessment e input)
        \<longleftrightarrow> versiegelteFlaeche input = PInf
          \<or> (is_finite (versiegelteFlaeche input) \<and> 800 < val (versiegelteFlaeche input)))
   \<and> CoPilotPage_nachweisErforderlich input
       = nachweisErforderlich (performDIN1986Assessment e input)"
  by (simp add: assess_nachweisErforderlich CoPilotPage_nachweisErforderlich_def js_gt_Fin_iff)

theorem C1_requirement_flag_witness:
  "\<not> nachweisErforderlich
       (performDIN1986Assessment sample_env (DEFAULT_INPUT\<lparr>versiegelteFlaeche := Fin 800\<rparr>))
   \<and> nachweisErforderlich
       (performDIN1986Assessment sample_env (DEFAULT_INPUT\<lparr>versiegelteFlaeche := Fin 800.01\<rparr>))
   \<and> \<not> CoPilotPage_nachweisErforderlich (DEFAULT_INPUT\<lparr>versiegelteFlaeche := Fin 800\<rparr>)
   \<and> CoPilotPage_nachweisErforderlich (DEFAULT_INPUT\<lparr>versiegelteFlaeche := Fin 800.01\<rparr>)
   \<and> \<not> nachweisErforderlich
       (performDIN1986Assessment sample_env (DEFAULT_INPUT\<lparr>versiegelteFlaeche := NaN\<rparr>))"
  using C1_requirement_flag [of sample_env "DEFAULT_INPUT\<lparr>versiegelteFlaeche := Fin 800\<rparr>"]
    C1_requirement_flag [of sample_env "DEFAULT_INPUT\<lparr>versiegelteFlaeche := Fin 800.01\<rparr>"]
    C1_requirement_flag [of sample_env "DEFAULT_INPUT\<lparr>versiegelteFlaeche := NaN\<rparr>"]
  by (simp add: js_gt_def)

section \<open>The design storm\<close>

text \<open>
  Claim C2. The design storm \<open>bemessungsregenJahre\<close> is the 100-year period if and only if
  the impervious fraction is at least 0.70, and the 30-year period otherwise. The fraction
  is the quotient of the impervious area by the total area as the engine computes it, a
  double, kept in the field \<open>versiegelungsgrad\<close>; 0.70 is the double nearest to 0.7, and a
  fraction equal to it selects the 100-year period (the boundary is inclusive). The rainfall
  intensity \<open>regenspende\<close> is the entry of the table \<open>BERLIN_KOSTRA\<close> at the selected period
  (220 for 100 years, 175 for 30). The engine does not examine the total area: the
  selection is made in this way for every input.
\<close>

theorem C2_design_storm:
  fixes e :: env and input :: DIN1986Input
  defines "r \<equiv> performDIN1986Assessment e input"
  shows "versiegelungsgrad r = js_div (versiegelteFlaeche input) (grundstuecksflaeche input)
    \<and> (bemessungsregenJahre r = 100 \<longleftrightarrow> js_ge (versiegelungsgrad r) (round64 0.7))
    \<and> (bemessungsregenJahre r = 30 \<longleftrightarrow> \<not> js_ge (versiegelungsgrad r) (round64 0.7))
    \<and> (versiegelungsgrad r = round64 0.7 \<longrightarrow> bemessungsregenJahre r = 100)
    \<and> map_of BERLIN_KOSTRA (bemessungsregenJahre r) = Some (regenspende r)
    \<and> regenspende r = (if bemessungsregenJahre r = 100 then Fin 220 else Fin 175)"
proof -
  have years: "bemessungsregenJahre r = (if js_ge (versiegelungsgrad r) (round64 0.7) then 100 else 30)"
    by (simp add: r_def assess_bemessungsregenJahre assess_versiegelungsgrad)
  have rain: "regenspende r = kostra_at (bemessungsregenJahre r)"
    by (simp add: r_def assess_regenspende)
  have boundary: "js_ge (round64 0.7) (round64 0.7)"
    by (rule js_ge_refl) (rule round64_not_nan)
  show ?thesis
    using years rain boundary
    by (auto simp add: r_def assess_versiegelungsgrad kostra_lookup kostra_at_100 kostra_at_30)
qed

text \<open>
  Three sites: 700 of 1000 square metres; 6.999999999999999 of 10, whose quotient rounds to
  the double 0.7; and 1434.86 of 2049.8, whose quotient is 0.6999999999999998.
\<close>

theorem C2_design_storm_witness:
  "bemessungsregenJahre (performDIN1986Assessment sample_env
      (DEFAULT_INPUT\<lparr>grundstuecksflaeche := Fin 1000, versiegelteFlaeche := Fin 700\<rparr>)) = 100
   \<and> regenspende (performDIN1986Assessment sample_env
      (DEFAULT_INPUT\<lparr>grundstuecksflaeche := Fin 1000, versiegelteFlaeche := Fin 700\<rparr>)) = Fin 220
   \<and> versiegelungsgrad (performDIN1986Assessment sample_env
      (DEFAULT_INPUT\<lparr>grundstuecksflaeche := Fin 10,
         versiegelteFlaeche := round64 6.999999999999999\<rparr>)) = round64 0.7
   \<and> bemessungsregenJahre (performDIN1986Assessment sample_env
      (DEFAULT_INPUT\<lparr>grundstuecksflaeche := Fin 10,
         versiegelteFlaeche := round64 6.999999999999999\<rparr>)) = 100
   \<and> bemessungsregenJahre (performDIN1986Assessment sample_env
      (DEFAULT_INPUT\<lparr>grundstuecksflaeche := round64 2049.8,
         versiegelteFlaeche := round64 1434.86\<rparr>)) = 30
   \<and> regenspende (performDIN1986Assessment sample_env
      (DEFAULT_INPUT\<lparr>grundstuecksflaeche := round64 2049.8,
         versiegelteFlaeche := round64 1434.86\<rparr>)) = Fin 175"
proof -
  have first: "js_div (Fin 700) (Fin 1000) = round64 0.7"
    by (simp add: js_Fin)
  have second: "js_div (round64 6.999999999999999) (Fin 10) = round64 0.7"
    using quotient_a round64_0_7 by simp
  have third: "\<not> js_ge (js_div (round64 1434.86) (round64 2049.8)) (round64 0.7)"
    using quotient_b round64_0_7 by (simp add: js_Fin)
  have boundary: "js_ge (round64 0.7) (round64 0.7)"
    by (rule js_ge_refl) (rule round64_not_nan)
  show ?thesis
    using boundary first second third
      C2_design_storm [of sample_env
        "DEFAULT_INPUT\<lparr>grundstuecksflaeche := Fin 1000, versiegelteFlaeche := Fin 700\<rparr>"]
      C2_design_storm [of sample_env
        "DEFAULT_INPUT\<lparr>grundstuecksflaeche := Fin 10,
           versiegelteFlaeche := round64 6.999999999999999\<rparr>"]
      C2_design_storm [of sample_env
        "DEFAULT_INPUT\<lparr>grundstuecksflaeche := round64 2049.8,
           versiegelteFlaeche := round64 1434.86\<rparr>"]
    by simp
qed

section \<open>The compliance status\<close>

lemma determineComplianceStatus_not_required:
  "determineComplianceStatus False qRational qPINN retentionM3 = BESTANDEN"
  by (simp add: determineComplianceStatus_def)

lemma determineComplianceStatus_required:
  "determineComplianceStatus True qRational qPINN retentionM3 =
     (if js_lt (js_div qPINN qRational) (round64 0.3) \<or> js_gt (js_div qPINN qRational) (Fin 3)
      then PRUEFUNG_ERFORDERLICH
      else if js_lt retentionM3 (Fin 50) then BESTANDEN
      else if js_lt retentionM3 (Fin 200) then PRUEFUNG_ERFORDERLICH
      else NICHT_BESTANDEN)"
  by (simp add: determineComplianceStatus_def Let_def)

text \<open>
  Claim C3. When the requirement flag is false, the compliance status is \<open>BESTANDEN\<close>,
  whatever the two discharges and the retention volume are: \<open>determineComplianceStatus\<close>
  answers \<open>BESTANDEN\<close> for every triple of numbers, and so does the assessment in every
  environment.
\<close>

theorem C3_not_required_passes:
  "determineComplianceStatus False qRational qPINN retentionM3 = BESTANDEN
   \<and> (\<not> nachweisErforderlich (performDIN1986Assessment e input) \<longrightarrow>
        nachweisStatus (performDIN1986Assessment e input) = BESTANDEN)"
  by (simp add: assess_nachweisStatus determineComplianceStatus_not_required)

theorem C3_not_required_passes_witness:
  "\<not> nachweisErforderlich
       (performDIN1986Assessment sample_env (DEFAULT_INPUT\<lparr>versiegelteFlaeche := Fin 800\<rparr>))
   \<and> nachweisStatus
       (performDIN1986Assessment sample_env (DEFAULT_INPUT\<lparr>versiegelteFlaeche := Fin 800\<rparr>))
     = BESTANDEN
   \<and> determineComplianceStatus False (Fin 1) (Fin 100) (Fin 500) = BESTANDEN"
proof -
  have "\<not> nachweisErforderlich
       (performDIN1986Assessment sample_env (DEFAULT_INPUT\<lparr>versiegelteFlaeche := Fin 800\<rparr>))"
    by (simp add: assess_nachweisErforderlich js_gt_Fin)
  then show ?thesis
    using C3_not_required_passes [of "Fin 1" "Fin 100" "Fin 500" sample_env
        "DEFAULT_INPUT\<lparr>versiegelteFlaeche := Fin 800\<rparr>"]
    by simp
qed

text \<open>
  Claim C4. When the requirement flag is true, let \<open>ratio\<close> be the kinematic-wave discharge
  divided by the rational-method discharge, as the engine computes it (a double). If
  \<open>ratio < 0.3\<close> or \<open>ratio > 3.0\<close>, the status is \<open>PRUEFUNG_ERFORDERLICH\<close> whatever the
  retention volume; otherwise the retention volume alone decides: below 50 gives
  \<open>BESTANDEN\<close>, from 50 up to but excluding 200 gives \<open>PRUEFUNG_ERFORDERLICH\<close>, 200 or
  above gives \<open>NICHT_BESTANDEN\<close>. Here 0.3 is the double nearest to 0.3.
\<close>

theorem C4_required_status:
  fixes e :: env and input :: DIN1986Input
  defines "r \<equiv> performDIN1986Assessment e input"
  defines "ratio \<equiv> js_div (spitzenabflussPINN r) (spitzenabflussRational r)"
  assumes required: "nachweisErforderlich r"
  shows "(js_lt ratio (round64 0.3) \<or> js_gt ratio (Fin 3) \<longrightarrow>
            nachweisStatus r = PRUEFUNG_ERFORDERLICH)
    \<and> (\<not> (js_lt ratio (round64 0.3) \<or> js_gt ratio (Fin 3)) \<longrightarrow>
          (js_lt (rueckhaltevolumen r) (Fin 50) \<longrightarrow> nachweisStatus r = BESTANDEN)
        \<and> (js_ge (rueckhaltevolumen r) (Fin 50) \<and> js_lt (rueckhaltevolumen r) (Fin 200) \<longrightarrow>
             nachweisStatus r = PRUEFUNG_ERFORDERLICH)
        \<and> (js_ge (rueckhaltevolumen r) (Fin 200) \<longrightarrow> nachweisStatus r = NICHT_BESTANDEN))"
proof -
  have status: "nachweisStatus r =
      determineComplianceStatus True (spitzenabflussRational r) (spitzenabflussPINN r)
        (rueckhaltevolumen r)"
    using required by (simp add: r_def assess_nachweisStatus)
  show ?thesis
    unfolding status determineComplianceStatus_required ratio_def
    by (auto simp add: js_ge_Fin_iff js_lt_Fin_iff)
qed

text \<open>
  Two environments, the same site. Discharges 100 and 29.999999999999996 with a retention of
  10: the ratio rounds to the double 0.3, which is not below 0.3, and the site passes.
  Discharges 72.4 and 21.72: the ratio is 0.29999999999999993 and a review is required.
\<close>

theorem C4_required_status_witness:
  "nachweisErforderlich
     (performDIN1986Assessment (discharges (Fin 100) (round64 29.999999999999996)) DEFAULT_INPUT)
   \<and> rueckhaltevolumen
     (performDIN1986Assessment (discharges (Fin 100) (round64 29.999999999999996)) DEFAULT_INPUT)
     = Fin 10
   \<and> nachweisStatus
     (performDIN1986Assessment (discharges (Fin 100) (round64 29.999999999999996)) DEFAULT_INPUT)
     = BESTANDEN
   \<and> nachweisErforderlich
     (performDIN1986Assessment (discharges (round64 72.4) (round64 21.72)) DEFAULT_INPUT)
   \<and> nachweisStatus
     (performDIN1986Assessment (discharges (round64 72.4) (round64 21.72)) DEFAULT_INPUT)
     = PRUEFUNG_ERFORDERLICH"
proof -
  have required: "nachweisErforderlich (performDIN1986Assessment (discharges x y) DEFAULT_INPUT)"
    for x y
    by (simp add: assess_nachweisErforderlich DEFAULT_INPUT_def js_Fin)
  have fields:
    "spitzenabflussRational (performDIN1986Assessment (discharges x y) DEFAULT_INPUT) = x"
    "spitzenabflussPINN (performDIN1986Assessment (discharges x y) DEFAULT_INPUT) = y"
    "rueckhaltevolumen (performDIN1986Assessment (discharges x y) DEFAULT_INPUT) = Fin 10"
    for x y
    by (simp_all add: assess_spitzenabflussRational assess_spitzenabflussPINN
        assess_kinematischeWelle assess_rueckhaltevolumen assess_wasserqualitaetsvolumen
        discharges_def retention_a)
  have first: "\<not> js_lt (js_div (round64 29.999999999999996) (Fin 100)) (round64 0.3)"
    "\<not> js_gt (js_div (round64 29.999999999999996) (Fin 100)) (Fin 3)"
    using ratio_a round64_0_3 by (simp_all add: js_Fin)
  have second: "js_lt (js_div (round64 21.72) (round64 72.4)) (round64 0.3)"
    using ratio_b round64_0_3 by (simp add: js_Fin)
  show ?thesis
    using required first second
      C4_required_status [OF required [of "Fin 100" "round64 29.999999999999996"]]
      C4_required_status [OF required [of "round64 72.4" "round64 21.72"]]
    by (simp add: fields js_Fin)
qed

section \<open>The weighted runoff coefficient\<close>

text \<open>
  The weighted runoff coefficient of a site that is sealed entirely, 13 of 13 square metres,
  with an impervious coefficient of 0.9: the product 13 * 0.9 rounds up to
  11.700000000000001, and the quotient by 13 is 0.9000000000000001, one unit in the last
  place above the coefficient.
\<close>

lemma abflussbeiwert_13:
  "abflussbeiwert (performDIN1986Assessment sample_env
      (DEFAULT_INPUT\<lparr>grundstuecksflaeche := Fin 13, versiegelteFlaeche := Fin 13\<rparr>))
   = Fin (8106479329266894 / 2 ^ 53)"
proof -
  have pervious_area: "js_sub (Fin 13) (Fin 13) = Fin 0"
    by (simp add: js_Fin round64_def)
  have pervious_part: "js_mul (Fin 0) (round64 0.2) = Fin 0"
    using round64_0_2 by (simp add: js_mul_def mk_zero_def)
  have total: "js_add (Fin (6586514455029351 / 2 ^ 49)) (Fin 0) = Fin (6586514455029351 / 2 ^ 49)"
    by (simp add: js_Fin)
      (subst round64_normal [where e = "3" and n = 6586514455029351],
        simp_all add: rne_def Let_def)
  have quotient: "js_div (Fin (6586514455029351 / 2 ^ 49)) (Fin 13) = Fin (8106479329266894 / 2 ^ 53)"
    by (simp add: js_Fin)
      (subst round64_normal [where e = "-1" and n = 8106479329266894],
        simp_all add: rne_def Let_def)
  show ?thesis
    using product_13 pervious_area pervious_part total quotient
    by (simp add: assess_abflussbeiwert sample_env_def)
qed

text \<open>With an infinite total area the weighted runoff coefficient is NaN.\<close>

lemma abflussbeiwert_infinite:
  "abflussbeiwert (performDIN1986Assessment sample_env
      (DEFAULT_INPUT\<lparr>grundstuecksflaeche := PInf, versiegelteFlaeche := Fin 0\<rparr>)) = NaN"
  using round64_0_9 round64_0_2
  by (simp add: assess_abflussbeiwert sample_env_def js_mul_def js_sub_def js_add_def js_div_def
      mk_zero_def mk_inf_def)

text \<open>
  A site of \<open>2 ^ - 1074\<close> square metres, the smallest positive double, sealed entirely: the
  product with 0.9 underflows back to the area, and the weighted runoff coefficient is 1.
\<close>

lemma abflussbeiwert_tiny:
  "abflussbeiwert (performDIN1986Assessment sample_env
      (DEFAULT_INPUT\<lparr>grundstuecksflaeche := Fin (1 / 2 ^ 1074),
         versiegelteFlaeche := Fin (1 / 2 ^ 1074)\<rparr>)) = Fin 1"
proof -
  have pervious_area: "js_sub (Fin (1 / 2 ^ 1074)) (Fin (1 / 2 ^ 1074)) = Fin 0"
    by (simp add: js_Fin round64_def)
  have pervious_part: "js_mul (Fin 0) (round64 0.2) = Fin 0"
    using round64_0_2 by (simp add: js_mul_def mk_zero_def)
  show ?thesis
    using product_tiny pervious_area pervious_part sum_tiny quotient_tiny
    by (simp add: assess_abflussbeiwert sample_env_def)
qed

text \<open>
  Claim C5, as stated, fails: for a total area greater than 0 and an impervious area between
  0 and the total area, the weighted runoff coefficient need not lie between the pervious
  and the impervious coefficient. With the coefficients 0.2 and 0.9, the site of 13 square
  metres sealed entirely has the coefficient 0.9000000000000001, above 0.9; a site of
  infinite area has the coefficient NaN; and the site of \<open>2 ^ - 1074\<close> square metres sealed
  entirely has the coefficient 1, above 0.9 by more than any rounding error.
\<close>

theorem C5_bounds_counterexample:
  "js_gt (Fin 13) (Fin 0) \<and> js_le (Fin 0) (Fin 13) \<and> js_le (Fin 13) (Fin 13)
   \<and> \<not> js_le
       (abflussbeiwert (performDIN1986Assessment sample_env
          (DEFAULT_INPUT\<lparr>grundstuecksflaeche := Fin 13, versiegelteFlaeche := Fin 13\<rparr>)))
       (impervious (RUNOFF_COEFFICIENTS sample_env))
   \<and> js_gt PInf (Fin 0) \<and> js_le (Fin 0) (Fin 0) \<and> js_le (Fin 0) PInf
   \<and> \<not> js_le (pervious (RUNOFF_COEFFICIENTS sample_env))
       (abflussbeiwert (performDIN1986Assessment sample_env
          (DEFAULT_INPUT\<lparr>grundstuecksflaeche := PInf, versiegelteFlaeche := Fin 0\<rparr>)))
   \<and> js_gt (Fin (1 / 2 ^ 1074)) (Fin 0) \<and> js_le (Fin 0) (Fin (1 / 2 ^ 1074))
   \<and> js_le (Fin (1 / 2 ^ 1074)) (Fin (1 / 2 ^ 1074))
   \<and> \<not> js_le
       (abflussbeiwert (performDIN1986Assessment sample_env
          (DEFAULT_INPUT\<lparr>grundstuecksflaeche := Fin (1 / 2 ^ 1074),
             versiegelteFlaeche := Fin (1 / 2 ^ 1074)\<rparr>)))
       (impervious (RUNOFF_COEFFICIENTS sample_env))
   \<and> \<not> val (abflussbeiwert (performDIN1986Assessment sample_env
          (DEFAULT_INPUT\<lparr>grundstuecksflaeche := Fin (1 / 2 ^ 1074),
             versiegelteFlaeche := Fin (1 / 2 ^ 1074)\<rparr>)))
       \<le> val (impervious (RUNOFF_COEFFICIENTS sample_env)) * (1 + 1 / 2 ^ 50)"
proof -
  have "impervious (RUNOFF_COEFFICIENTS sample_env) = Fin (8106479329266893 / 2 ^ 53)"
    using round64_0_9 by (simp add: sample_env_def)
  then show ?thesis
    using abflussbeiwert_13 abflussbeiwert_infinite abflussbeiwert_tiny
    by (simp add: js_gt_def js_le_def)
qed

text \<open>
  Claim C5, amended. For a total area between \<open>2 ^ - 500\<close> and \<open>2 ^ 500\<close> and an
  impervious area between 0 and the total area, the weighted runoff coefficient
  \<open>abflussbeiwert\<close> is finite and lies between the pervious and the impervious coefficient up
  to a relative rounding error of \<open>2 ^ - 50\<close>: it is at least the pervious coefficient
  times \<open>1 - 2 ^ - 50\<close> and at most the impervious coefficient times \<open>1 + 2 ^ - 50\<close>. The
  two coefficients are constants of the module \<open>utils/hydrology\<close>: the pervious one is taken
  not above the impervious one, the impervious one between \<open>2 ^ - 500\<close> and 1, the
  pervious one zero or at least \<open>2 ^ - 500\<close>.
\<close>

theorem C5_runoff_coefficient_rounded_bounds:
  fixes e :: env and input :: DIN1986Input
  defines "r \<equiv> performDIN1986Assessment e input"
  defines "area \<equiv> grundstuecksflaeche input"
  defines "sealed \<equiv> versiegelteFlaeche input"
  defines "c_imp \<equiv> impervious (RUNOFF_COEFFICIENTS e)"
  defines "c_per \<equiv> pervious (RUNOFF_COEFFICIENTS e)"
  assumes area_range: "js_le (Fin (1 / 2 ^ 500)) area" "js_le area (Fin (2 ^ 500))"
    and sealed_range: "js_le (Fin 0) sealed" "js_le sealed area"
    and impervious_range: "js_le (Fin (1 / 2 ^ 500)) c_imp" "js_le c_imp (Fin 1)"
    and pervious_range: "is_zero c_per \<or> js_le (Fin (1 / 2 ^ 500)) c_per" "js_le c_per c_imp"
  shows "is_finite (abflussbeiwert r)
    \<and> val c_per * (1 - 1 / 2 ^ 50) \<le> val (abflussbeiwert r)
    \<and> val (abflussbeiwert r) \<le> val c_imp * (1 + 1 / 2 ^ 50)"
proof -
  have area: "is_finite area" "1 / 2 ^ 500 \<le> val area" "val area \<le> 2 ^ 500"
    using area_range js_le_between [of "1 / 2 ^ 500" area "Fin (2 ^ 500)"] by simp_all
  have sealed: "is_finite sealed" "0 \<le> val sealed" "val sealed \<le> val area"
    using sealed_range area(1) js_le_between [of 0 sealed area] by simp_all
  have c_imp: "is_finite c_imp" "1 / 2 ^ 500 \<le> val c_imp" "val c_imp \<le> 1"
    using impervious_range js_le_between [of "1 / 2 ^ 500" c_imp "Fin 1"] by simp_all
  have c_per: "is_finite c_per" "0 \<le> val c_per" "val c_per \<le> val c_imp"
    and small: "val c_per = 0 \<or> 1 / 2 ^ 500 \<le> val c_per"
    using pervious_range c_imp(1)
    by (cases c_per; cases c_imp; auto simp add: js_le_def)+
  let ?w = "js_div (js_add (js_mul sealed c_imp) (js_mul (js_sub area sealed) c_per)) area"
  have w: "abflussbeiwert r = ?w"
    by (simp add: r_def area_def sealed_def c_imp_def c_per_def assess_abflussbeiwert)
  from weighted_average_rounded [OF area sealed c_imp c_per]
  have finite: "is_finite ?w" and nonneg: "0 \<le> val ?w"
    and upper: "val ?w \<le> val c_imp * (1 + 8 * unit_roundoff)"
    and lower: "val c_per * (1 - unit_roundoff) * (1 - unit_roundoff) * (1 - unit_roundoff)
        * (1 - unit_roundoff) - 4 * (underflow_bound / val area) - underflow_bound \<le> val ?w"
    by simp_all
  have eight: "8 * unit_roundoff = 1 / 2 ^ 50"
    by (simp add: unit_roundoff_def)
  have "val c_per * (1 - 8 * unit_roundoff) \<le> val ?w"
  proof (cases "val c_per = 0")
    case True
    with nonneg show ?thesis
      by simp
  next
    case False
    define P where "P = (1 - unit_roundoff) * (1 - unit_roundoff) * (1 - unit_roundoff)
      * (1 - unit_roundoff)"
    define H where "H = underflow_bound / val area"
    define cu where "cu = val c_per * unit_roundoff"
    from False small have "1 / 2 ^ 500 \<le> val c_per"
      by simp
    with area(2) have "18 * (underflow_bound / val area) + underflow_bound
        \<le> val c_per * (3 * unit_roundoff)"
      by (rule underflow_absorbed)
    then have absorbed: "18 * H + underflow_bound \<le> 3 * cu"
      by (simp add: H_def cu_def)
    have H: "0 \<le> H"
      unfolding H_def using area(2) roundoff_facts(3) by (intro divide_nonneg_nonneg) simp_all
    have "1 - 4 * unit_roundoff \<le> P"
      unfolding P_def by (rule roundoff_power4(2))
    then have "val c_per * (1 - 4 * unit_roundoff) \<le> val c_per * P"
      using c_per(2) by (rule mult_left_mono)
    then have power: "val c_per - 4 * cu \<le> val c_per * P"
      by (simp add: cu_def algebra_simps)
    have cu: "0 \<le> cu"
      using c_per(2) roundoff_facts(1) by (simp add: cu_def)
    have "val c_per * P - 4 * H - underflow_bound \<le> val ?w"
      using lower by (simp add: P_def H_def mult.assoc)
    then have "val c_per - 8 * cu \<le> val ?w"
      using absorbed H power cu by linarith
    then show ?thesis
      by (simp add: cu_def algebra_simps)
  qed
  then show ?thesis
    using finite upper by (simp add: w eight)
qed

text \<open>
  The initial form content, and the site of 13 square metres sealed entirely: its coefficient
  0.9000000000000001 is above 0.9 and within the rounding error.
\<close>

theorem C5_runoff_coefficient_rounded_bounds_witness:
  "js_le (Fin (1 / 2 ^ 500)) (grundstuecksflaeche DEFAULT_INPUT)
   \<and> js_le (grundstuecksflaeche DEFAULT_INPUT) (Fin (2 ^ 500))
   \<and> js_le (Fin 0) (versiegelteFlaeche DEFAULT_INPUT)
   \<and> js_le (versiegelteFlaeche DEFAULT_INPUT) (grundstuecksflaeche DEFAULT_INPUT)
   \<and> js_le (Fin (1 / 2 ^ 500)) (pervious (RUNOFF_COEFFICIENTS sample_env))
   \<and> js_le (pervious (RUNOFF_COEFFICIENTS sample_env))
        (impervious (RUNOFF_COEFFICIENTS sample_env))
   \<and> js_le (impervious (RUNOFF_COEFFICIENTS sample_env)) (Fin 1)
   \<and> is_finite (abflussbeiwert (performDIN1986Assessment sample_env DEFAULT_INPUT))
   \<and> val (pervious (RUNOFF_COEFFICIENTS sample_env)) * (1 - 1 / 2 ^ 50)
       \<le> val (abflussbeiwert (performDIN1986Assessment sample_env DEFAULT_INPUT))
   \<and> val (abflussbeiwert (performDIN1986Assessment sample_env DEFAULT_INPUT))
       \<le> val (impervious (RUNOFF_COEFFICIENTS sample_env)) * (1 + 1 / 2 ^ 50)
   \<and> val (abflussbeiwert (performDIN1986Assessment sample_env
         (DEFAULT_INPUT\<lparr>grundstuecksflaeche := Fin 13, versiegelteFlaeche := Fin 13\<rparr>)))
       \<le> val (impervious (RUNOFF_COEFFICIENTS sample_env)) * (1 + 1 / 2 ^ 50)"
proof -
  have coefficients: "impervious (RUNOFF_COEFFICIENTS sample_env) = Fin (8106479329266893 / 2 ^ 53)"
    "pervious (RUNOFF_COEFFICIENTS sample_env) = Fin (7205759403792794 / 2 ^ 55)"
    using round64_0_9 round64_0_2 by (simp_all add: sample_env_def)
  have h: "js_le (Fin (1 / 2 ^ 500)) (grundstuecksflaeche DEFAULT_INPUT)"
    "js_le (grundstuecksflaeche DEFAULT_INPUT) (Fin (2 ^ 500))"
    "js_le (Fin 0) (versiegelteFlaeche DEFAULT_INPUT)"
    "js_le (versiegelteFlaeche DEFAULT_INPUT) (grundstuecksflaeche DEFAULT_INPUT)"
    "js_le (Fin (1 / 2 ^ 500)) (impervious (RUNOFF_COEFFICIENTS sample_env))"
    "js_le (impervious (RUNOFF_COEFFICIENTS sample_env)) (Fin 1)"
    "is_zero (pervious (RUNOFF_COEFFICIENTS sample_env))
       \<or> js_le (Fin (1 / 2 ^ 500)) (pervious (RUNOFF_COEFFICIENTS sample_env))"
    "js_le (pervious (RUNOFF_COEFFICIENTS sample_env))
       (impervious (RUNOFF_COEFFICIENTS sample_env))"
    by (simp_all add: coefficients DEFAULT_INPUT_def js_le_def)
  let ?site = "DEFAULT_INPUT\<lparr>grundstuecksflaeche := Fin 13, versiegelteFlaeche := Fin 13\<rparr>"
  have k: "js_le (Fin (1 / 2 ^ 500)) (grundstuecksflaeche ?site)"
    "js_le (grundstuecksflaeche ?site) (Fin (2 ^ 500))"
    "js_le (Fin 0) (versiegelteFlaeche ?site)"
    "js_le (versiegelteFlaeche ?site) (grundstuecksflaeche ?site)"
    by (simp_all add: js_le_def)
  have "js_le (Fin (1 / 2 ^ 500)) (pervious (RUNOFF_COEFFICIENTS sample_env))"
    by (simp add: coefficients js_le_def)
  then show ?thesis
    using h(1-6,8) C5_runoff_coefficient_rounded_bounds [OF h]
      C5_runoff_coefficient_rounded_bounds [OF k h(5-8)]
    by simp
qed

section \<open>The recommendations\<close>

lemma rec_hoher_versiegelungsgrad_distinct:
  "rec_hoher_versiegelungsgrad \<noteq> rec_t100"
  "rec_hoher_versiegelungsgrad \<noteq> rec_grosse_grundstuecke"
  "rec_hoher_versiegelungsgrad \<noteq> rec_divergenz"
  "rec_hoher_versiegelungsgrad \<noteq> rec_rueckhaltevolumen"
  "rec_hoher_versiegelungsgrad \<noteq> rec_rigolen"
  "rec_hoher_versiegelungsgrad \<noteq> rec_hinweis"
  by (simp_all add: rec_hoher_versiegelungsgrad_def rec_t100_def rec_grosse_grundstuecke_def
      rec_divergenz_def rec_rueckhaltevolumen_def rec_rigolen_def rec_hinweis_def)

lemma js_gt_irrefl: "\<not> js_gt x x"
  by (cases x) (simp_all add: js_gt_def)

text \<open>
  Claim C6. For every input, every impervious fraction and every compliance status, the
  recommendation list is non-empty, its last element is the fixed disclaimer
  (\<open>rec_hinweis\<close>), and the advisory on a high degree of sealing (above 80 percent,
  \<open>rec_hoher_versiegelungsgrad\<close>) is in the list if and only if the fraction is strictly
  greater than 0.8, the double nearest to 0.8; at a fraction equal to that double it is
  absent. The list of an assessment is the one generated from its own fraction, the quotient
  of the two areas as the engine computes it, and from its own status.
\<close>

theorem C6_recommendations:
  fixes e :: env and input :: DIN1986Input
  defines "r \<equiv> performDIN1986Assessment e input"
  shows "generateRecommendations input fraction status \<noteq> []
    \<and> last (generateRecommendations input fraction status) = rec_hinweis
    \<and> (rec_hoher_versiegelungsgrad \<in> set (generateRecommendations input fraction status)
         \<longleftrightarrow> js_gt fraction (round64 0.8))
    \<and> rec_hoher_versiegelungsgrad \<notin> set (generateRecommendations input (round64 0.8) status)
    \<and> empfehlungen r = generateRecommendations input (versiegelungsgrad r) (nachweisStatus r)
    \<and> versiegelungsgrad r = js_div (versiegelteFlaeche input) (grundstuecksflaeche input)
    \<and> empfehlungen r \<noteq> []
    \<and> last (empfehlungen r) = rec_hinweis
    \<and> (rec_hoher_versiegelungsgrad \<in> set (empfehlungen r)
         \<longleftrightarrow> js_gt (versiegelungsgrad r) (round64 0.8))"
proof -
  have nonempty: "generateRecommendations input v s \<noteq> []"
    and disclaimer: "last (generateRecommendations input v s) = rec_hinweis" for v s
    by (simp_all add: generateRecommendations_def Let_def)
  have present: "rec_hoher_versiegelungsgrad \<in> set (generateRecommendations input v s)
      \<longleftrightarrow> js_gt v (round64 0.8)" for v s
    by (simp add: generateRecommendations_def Let_def rec_hoher_versiegelungsgrad_distinct)
  show ?thesis
    using nonempty disclaimer present
    by (simp add: r_def assess_empfehlungen assess_versiegelungsgrad js_gt_irrefl)
qed

text \<open>
  Two sites: 60.00000000000001 of 75 square metres, whose quotient rounds to the double 0.8,
  and 1024.64 of 1280.8, whose quotient is 0.8000000000000002.
\<close>

theorem C6_recommendations_witness:
  "generateRecommendations DEFAULT_INPUT (round64 0.81) PRUEFUNG_ERFORDERLICH =
     [rec_hoher_versiegelungsgrad, rec_t100, rec_divergenz, rec_hinweis]
   \<and> rec_hoher_versiegelungsgrad
       \<notin> set (generateRecommendations DEFAULT_INPUT (round64 0.8) PRUEFUNG_ERFORDERLICH)
   \<and> empfehlungen (performDIN1986Assessment sample_env
        (DEFAULT_INPUT\<lparr>grundstuecksflaeche := Fin 75,
           versiegelteFlaeche := round64 60.00000000000001\<rparr>))
       = [rec_t100, rec_hinweis]
   \<and> rec_hoher_versiegelungsgrad \<in> set (empfehlungen (performDIN1986Assessment sample_env
        (DEFAULT_INPUT\<lparr>grundstuecksflaeche := round64 1280.8,
           versiegelteFlaeche := round64 1024.64\<rparr>)))
   \<and> last (empfehlungen (performDIN1986Assessment sample_env
        (DEFAULT_INPUT\<lparr>grundstuecksflaeche := round64 1280.8,
           versiegelteFlaeche := round64 1024.64\<rparr>))) = rec_hinweis"
proof -
  let ?small = "DEFAULT_INPUT\<lparr>grundstuecksflaeche := Fin 75,
    versiegelteFlaeche := round64 60.00000000000001\<rparr>"
  let ?large = "DEFAULT_INPUT\<lparr>grundstuecksflaeche := round64 1280.8,
    versiegelteFlaeche := round64 1024.64\<rparr>"
  have list: "generateRecommendations DEFAULT_INPUT (round64 0.81) PRUEFUNG_ERFORDERLICH =
      [rec_hoher_versiegelungsgrad, rec_t100, rec_divergenz, rec_hinweis]"
    using round64_0_81 round64_0_8 round64_0_7
    by (simp add: generateRecommendations_def Let_def DEFAULT_INPUT_def js_Fin)
  have "\<not> nachweisErforderlich (performDIN1986Assessment sample_env ?small)"
    using round64_sealed_c by (simp add: assess_nachweisErforderlich js_Fin)
  then have status: "nachweisStatus (performDIN1986Assessment sample_env ?small) = BESTANDEN"
    by (simp add: assess_nachweisStatus determineComplianceStatus_not_required)
  have small: "generateRecommendations ?small
      (js_div (round64 60.00000000000001) (Fin 75)) BESTANDEN = [rec_t100, rec_hinweis]"
    using quotient_c round64_0_8 round64_0_7
    by (simp add: generateRecommendations_def Let_def js_Fin)
  have large: "js_gt (js_div (round64 1024.64) (round64 1280.8)) (round64 0.8)"
    using quotient_d round64_0_8 by (simp add: js_Fin)
  have absent: "rec_hoher_versiegelungsgrad
      \<notin> set (generateRecommendations DEFAULT_INPUT (round64 0.8) PRUEFUNG_ERFORDERLICH)"
    using C6_recommendations [of DEFAULT_INPUT "round64 0.81" PRUEFUNG_ERFORDERLICH sample_env]
    by simp
  have small_list: "empfehlungen (performDIN1986Assessment sample_env ?small)
      = [rec_t100, rec_hinweis]"
    using small status
      C6_recommendations [of ?small "round64 0.81" PRUEFUNG_ERFORDERLICH sample_env]
    by simp
  have large_list: "rec_hoher_versiegelungsgrad
      \<in> set (empfehlungen (performDIN1986Assessment sample_env ?large))"
    "last (empfehlungen (performDIN1986Assessment sample_env ?large)) = rec_hinweis"
    using large C6_recommendations [of ?large "round64 0.81" PRUEFUNG_ERFORDERLICH sample_env]
    by auto
  show ?thesis
    using list absent small_list large_list by blast
qed

section \<open>The slope passed to the kinematic wave\<close>

lemma Math_max_zero:
  assumes "is_zero x"
  shows "Math_max (js_div x (Fin 100)) (round64 0.001) = round64 0.001"
  using assms round64_0_001
  by (cases x) (simp_all add: js_div_def mk_zero_def Math_max_def)

text \<open>
  Claim C7. In every environment and for every input the kinematic-wave computation is
  called, and the slope it receives is \<open>Math.max\<close> of the input slope divided by 100 and the
  floor 0.001 (the quotient as the engine computes it, a double; 0.001 the double nearest to
  it). Unless the input slope is NaN, the slope passed is one of these two numbers and is
  below neither; \<open>Math.max\<close> passes a NaN slope on as NaN. An input slope of zero is raised
  to 0.001, nothing is rejected, and the kinematic-wave fields of the result are what the
  computation returns for these arguments.
\<close>

theorem C7_slope_floor:
  fixes e :: env and input :: DIN1986Input
  defines "r \<equiv> performDIN1986Assessment e input"
  defines "slopeDecimal \<equiv> js_div (gelaendeneigung input) (Fin 100)"
  defines "passed \<equiv> Math_max slopeDecimal (round64 0.001)"
  shows "kinematischeWelle r =
      computeKinematicWaveSolution e
        \<lparr> length_kw = fliesslaenge input,
          rainfall = regenspende r,
          slope = passed,
          manningN_kw = manningN input,
          width = Math_sqrt (grundstuecksflaeche input) \<rparr>
    \<and> spitzenabflussPINN r = peakDischarge (kinematischeWelle r)
    \<and> (\<not> is_nan (gelaendeneigung input) \<longrightarrow>
          (passed = slopeDecimal \<or> passed = round64 0.001)
          \<and> js_ge passed slopeDecimal \<and> js_ge passed (round64 0.001))
    \<and> (is_nan (gelaendeneigung input) \<longrightarrow> passed = NaN)
    \<and> (is_zero (gelaendeneigung input) \<longrightarrow> passed = round64 0.001)"
proof -
  have greatest: "(passed = slopeDecimal \<or> passed = round64 0.001)
      \<and> js_ge passed slopeDecimal \<and> js_ge passed (round64 0.001)"
    if "\<not> is_nan (gelaendeneigung input)"
    unfolding passed_def
    using that by (intro Math_max_greatest) (simp_all add: slopeDecimal_def js_div_100_nan
        round64_not_nan)
  have nan: "passed = NaN" if "is_nan (gelaendeneigung input)"
    using that by (simp add: passed_def slopeDecimal_def Math_max_nan js_div_100_nan)
  have zero: "passed = round64 0.001" if "is_zero (gelaendeneigung input)"
    unfolding passed_def slopeDecimal_def using that by (rule Math_max_zero)
  show ?thesis
    using greatest nan zero
    by (simp add: r_def passed_def slopeDecimal_def assess_kinematischeWelle
        assess_spitzenabflussPINN)
qed

text \<open>
  The environment \<open>probe_env\<close> returns the slope it receives as the peak discharge. A slope
  of 0 percent is passed as 0.001, a slope of 2 percent as 0.02, a slope of 0.7 percent as
  0.006999999999999999 (the quotient 0.7 / 100 in doubles), and NaN as NaN.
\<close>

theorem C7_slope_floor_witness:
  "spitzenabflussPINN (performDIN1986Assessment probe_env
      (DEFAULT_INPUT\<lparr>gelaendeneigung := Fin 0\<rparr>)) = round64 0.001
   \<and> spitzenabflussPINN (performDIN1986Assessment probe_env
      (DEFAULT_INPUT\<lparr>gelaendeneigung := NZero\<rparr>)) = round64 0.001
   \<and> spitzenabflussPINN (performDIN1986Assessment probe_env DEFAULT_INPUT) = round64 0.02
   \<and> spitzenabflussPINN (performDIN1986Assessment probe_env
      (DEFAULT_INPUT\<lparr>gelaendeneigung := round64 0.7\<rparr>)) = Fin (1008806316530991 / 2 ^ 57)
   \<and> spitzenabflussPINN (performDIN1986Assessment probe_env
      (DEFAULT_INPUT\<lparr>gelaendeneigung := NaN\<rparr>)) = NaN"
proof -
  have probe: "peakDischarge (computeKinematicWaveSolution probe_env p) = slope p" for p
    by (simp add: probe_env_def)
  have default: "Math_max (js_div (Fin 2) (Fin 100)) (round64 0.001) = round64 0.02"
    using round64_0_001 round64_0_02 by (simp add: js_Fin Math_max_def)
  have shallow: "Math_max (js_div (round64 0.7) (Fin 100)) (round64 0.001)
      = Fin (1008806316530991 / 2 ^ 57)"
    using round64_0_001 slope_a by (simp add: Math_max_def)
  have slope: "gelaendeneigung DEFAULT_INPUT = Fin 2"
    by (simp add: DEFAULT_INPUT_def)
  show ?thesis
    using default shallow
      C7_slope_floor [of probe_env "DEFAULT_INPUT\<lparr>gelaendeneigung := Fin 0\<rparr>"]
      C7_slope_floor [of probe_env "DEFAULT_INPUT\<lparr>gelaendeneigung := NZero\<rparr>"]
      C7_slope_floor [of probe_env DEFAULT_INPUT]
      C7_slope_floor [of probe_env "DEFAULT_INPUT\<lparr>gelaendeneigung := round64 0.7\<rparr>"]
      C7_slope_floor [of probe_env "DEFAULT_INPUT\<lparr>gelaendeneigung := NaN\<rparr>"]
    by (simp add: probe slope round64_not_nan)
qed

section \<open>The soil category\<close>

text \<open>
  Claim C9. Two inputs that differ only in the soil category \<open>bodenart\<close> have the same
  assessment in every field, the timestamp apart: with the same clock reading the two results
  are equal, and with two clock readings they are equal once the timestamps are set to a
  common value. The table \<open>SOIL_SCS_MAP\<close> is not read by the assessment.
\<close>

theorem C9_soil_independence:
  "performDIN1986Assessment e (input\<lparr>bodenart := b\<rparr>) = performDIN1986Assessment e input
   \<and> (performDIN1986Assessment (e\<lparr>Date_toISOString := t1\<rparr>) (input\<lparr>bodenart := b\<rparr>))
         \<lparr>zeitstempel := z\<rparr>
       = (performDIN1986Assessment (e\<lparr>Date_toISOString := t2\<rparr>) input)\<lparr>zeitstempel := z\<rparr>"
  by (simp add: performDIN1986Assessment_def generateRecommendations_def Let_def)

theorem C9_soil_independence_witness:
  "performDIN1986Assessment sample_env (DEFAULT_INPUT\<lparr>bodenart := TM\<rparr>)
     = performDIN1986Assessment sample_env DEFAULT_INPUT
   \<and> bodenart (DEFAULT_INPUT\<lparr>bodenart := TM\<rparr>) \<noteq> bodenart DEFAULT_INPUT
   \<and> SOIL_SCS_MAP (bodenart (DEFAULT_INPUT\<lparr>bodenart := TM\<rparr>))
       \<noteq> SOIL_SCS_MAP (bodenart DEFAULT_INPUT)"
  using C9_soil_independence [where e = sample_env and input = DEFAULT_INPUT and b = TM]
  by (simp add: DEFAULT_INPUT_def)

section \<open>The runoff-effective area\<close>

text \<open>
  Claim C10. The field \<open>abflusswirksameFlaeche\<close> of the result is the input impervious area
  itself, whatever the runoff coefficients of the environment are; the requirement check
  compares this value with 800, and the justification text is built around the printed form
  of this value.
\<close>

theorem C10_runoff_effective_area:
  fixes e :: env and input :: DIN1986Input
  defines "r \<equiv> performDIN1986Assessment e input"
  shows "abflusswirksameFlaeche r = versiegelteFlaeche input
    \<and> abflusswirksameFlaeche (performDIN1986Assessment (e\<lparr>RUNOFF_COEFFICIENTS := rc\<rparr>) input)
        = versiegelteFlaeche input
    \<and> nachweisErforderlich r = js_gt (abflusswirksameFlaeche r) (Fin 800)
    \<and> begruendung r =
        begruendung_prefix @ Number_toString e (versiegelteFlaeche input)
          @ (if nachweisErforderlich r then begruendung_ueberschreitet else begruendung_unter)"
  by (simp add: r_def assess_abflusswirksameFlaeche assess_nachweisErforderlich
      assess_begruendung)

theorem C10_runoff_effective_area_witness:
  "abflusswirksameFlaeche (performDIN1986Assessment sample_env DEFAULT_INPUT) = Fin 1400
   \<and> nachweisErforderlich (performDIN1986Assessment sample_env DEFAULT_INPUT)
   \<and> begruendung (performDIN1986Assessment sample_env DEFAULT_INPUT)
       = begruendung_prefix @ ''1400'' @ begruendung_ueberschreitet"
proof -
  have printed: "Number_toString sample_env (Fin 1400) = ''1400''"
  proof -
    have "decimal 1400 = ''1400''"
      by code_simp
    then show ?thesis
      by (simp add: sample_env_def sample_toString_def)
  qed
  have area: "versiegelteFlaeche DEFAULT_INPUT = Fin 1400"
    by (simp add: DEFAULT_INPUT_def)
  show ?thesis
    using C10_runoff_effective_area
      [where e = sample_env and input = DEFAULT_INPUT and rc = "RUNOFF_COEFFICIENTS sample_env"]
    by (simp add: printed area js_Fin)
qed

end
